theory Spec2Isabelle
  imports Complex_Main "HOL-Library.Log_Nat"
begin

section \<open>Python values, keyword arguments and exceptions\<close>

text \<open>
  The repository is Python. These conventions hold throughout the development:
  \<^item> a \<^verbatim>\<open>float\<close> is modelled by the rational number it denotes (type \<open>rat\<close>). The
    arithmetic of \<^verbatim>\<open>calculate_cost\<close> and of the pricing tables rounds every result to
    the nearest binary64 number, as Python does; the exponent range of a double is
    not modelled (no overflow, no \<^verbatim>\<open>OverflowError\<close> when an integer beyond that range
    is converted, no subnormal numbers), nor is NaN. The seconds of the clock are
    added exactly;
  \<^item> a \<^verbatim>\<open>str\<close> is a \<open>string\<close> of (ASCII) characters;
  \<^item> the loggers are those of the standard library (\<^verbatim>\<open>logging.getLogger\<close>): a call
    that passes keyword arguments unknown to \<^verbatim>\<open>Logger._log\<close> raises \<^verbatim>\<open>TypeError\<close> when
    the level of the call is enabled, and does nothing when it is not. A logger call
    without such keyword arguments has no effect on the result of a function and is
    left out.
  Values that travel through \<^verbatim>\<open>**kwargs\<close> are dynamically typed; the model covers
  \<^verbatim>\<open>None\<close>, booleans, integers and strings.
\<close>

datatype pyval = PNone | PBool bool | PInt int | PStr string

type_synonym kwargs = "(string \<times> pyval) list"

text \<open>Truthiness, as tested by \<^verbatim>\<open>if x\<close> and \<^verbatim>\<open>x or y\<close>.\<close>

fun truthy :: "pyval \<Rightarrow> bool" where
  "truthy PNone = False"
| "truthy (PBool b) = b"
| "truthy (PInt n) = (n \<noteq> 0)"
| "truthy (PStr s) = (s \<noteq> [])"

text \<open>Decimal notation of integers, as produced by \<^verbatim>\<open>str\<close> and by f-strings.\<close>

fun str_nat :: "nat \<Rightarrow> string" where
  "str_nat n =
     (if n < 10 then [char_of (48 + n)]
      else str_nat (n div 10) @ [char_of (48 + n mod 10)])"

declare str_nat.simps [simp del]

definition str_int :: "int \<Rightarrow> string" where
  "str_int i = (if i < 0 then CHR ''-'' # str_nat (nat (- i)) else str_nat (nat i))"

fun py_str :: "pyval \<Rightarrow> string" where
  "py_str PNone = ''None''"
| "py_str (PBool b) = (if b then ''True'' else ''False'')"
| "py_str (PInt n) = str_int n"
| "py_str (PStr s) = s"

fun join :: "string \<Rightarrow> string list \<Rightarrow> string" where
  "join sep [] = []"
| "join sep [x] = x"
| "join sep (x # y # ys) = x @ sep @ join sep (y # ys)"

text \<open>\<^verbatim>\<open>s.lower()\<close> on ASCII text, and the substring test \<^verbatim>\<open>needle in s\<close>.\<close>

definition char_lower :: "char \<Rightarrow> char" where
  "char_lower c =
     (let n = (of_char c :: nat) in if 65 \<le> n \<and> n \<le> 90 then char_of (n + 32) else c)"

definition lower :: "string \<Rightarrow> string" where
  "lower s = map char_lower s"

definition startswith :: "string \<Rightarrow> string \<Rightarrow> bool" where
  "startswith s p = (take (length p) s = p)"

fun str_contains :: "string \<Rightarrow> string \<Rightarrow> bool" where
  "str_contains needle [] = (needle = [])"
| "str_contains needle (c # cs) = (startswith (c # cs) needle \<or> str_contains needle cs)"

text \<open>
  The classes of \<^verbatim>\<open>exceptions.py\<close>. An instance carries its class, the message given to
  \<^verbatim>\<open>Exception.__init__\<close>, the attributes \<^verbatim>\<open>provider\<close> and \<^verbatim>\<open>metadata\<close> set by the base
  class, and the attributes its own class adds (\<^verbatim>\<open>retry_after\<close>, \<^verbatim>\<open>model\<close>, ...).
\<close>

datatype exc_class =
    LLMProviderError
  | RateLimitError
  | QuotaExceededError
  | ModelNotFoundError
  | AuthenticationError
  | ProviderUnavailableError
  | ContentFilterError
  | ContextLengthExceededError
  | InvalidRequestError
  | TimeoutError

record provider_error =
  cls :: exc_class
  message :: string
  err_provider :: pyval
  err_metadata :: kwargs
  attrs :: kwargs

text \<open>
  What a function can raise: Python's built-in exceptions that occur in the code, the
  plain \<^verbatim>\<open>Exception(msg)\<close> the providers raise, \<^verbatim>\<open>asyncio.TimeoutError\<close>, an error of the
  transport, and an instance of a class of \<^verbatim>\<open>exceptions.py\<close>.
\<close>

datatype py_exception =
    ValueError string
  | TypeError string
  | AttributeError string
  | KeyError string
  | IndexError string
  | UnboundLocalError string
  | Exception string
  | AsyncioTimeoutError
  | TransportError string
  | Raised provider_error

text \<open>An error of the taxonomy is an instance of \<^verbatim>\<open>LLMProviderError\<close> or of a subclass.\<close>

fun classified :: "py_exception \<Rightarrow> bool" where
  "classified (Raised e) = True"
| "classified _ = False"

subsection \<open>Calls with keyword arguments\<close>

text \<open>
  \<^verbatim>\<open>f(a, k=v, **kwargs)\<close> raises \<^verbatim>\<open>TypeError\<close> when a key of \<^verbatim>\<open>kwargs\<close> repeats
  an explicit keyword, and when a keyword names a parameter that is already bound by
  position. What is left over is the callee's own \<^verbatim>\<open>**kwargs\<close>.
\<close>

definition call_keywords :: "kwargs \<Rightarrow> kwargs \<Rightarrow> py_exception + kwargs" where
  "call_keywords explicit star =
     (case filter (\<lambda>k. k \<in> set (map fst explicit)) (map fst star) of
        [] \<Rightarrow> Inr (explicit @ star)
      | k # _ \<Rightarrow> Inl (TypeError (''got multiple values for keyword argument '' @ k)))"

definition bind_positional :: "string list \<Rightarrow> kwargs \<Rightarrow> py_exception + kwargs" where
  "bind_positional names kw =
     (case filter (\<lambda>k. k \<in> set names) (map fst kw) of
        [] \<Rightarrow> Inr kw
      | k # _ \<Rightarrow> Inl (TypeError (''got multiple values for argument '' @ k)))"

definition kw_get :: "kwargs \<Rightarrow> string \<Rightarrow> pyval \<Rightarrow> pyval" where
  "kw_get kw k d = (case map_of kw k of None \<Rightarrow> d | Some v \<Rightarrow> v)"

definition kw_del :: "kwargs \<Rightarrow> string \<Rightarrow> kwargs" where
  "kw_del kw k = filter (\<lambda>p. fst p \<noteq> k) kw"

definition bind_exc :: "py_exception + 'a \<Rightarrow> ('a \<Rightarrow> py_exception + 'b) \<Rightarrow> py_exception + 'b" where
  "bind_exc m f = (case m of Inl e \<Rightarrow> Inl e | Inr x \<Rightarrow> f x)"

subsection \<open>The constructors of \<^verbatim>\<open>exceptions.py\<close>\<close>

text \<open>
  \<^verbatim>\<open>LLMProviderError.__init__(self, message, provider=None, **kwargs)\<close>, called with the
  message by position and the keywords \<open>kw\<close>. The first argument is the class being
  instantiated.
\<close>

definition LLMProviderError_init :: "exc_class \<Rightarrow> string \<Rightarrow> kwargs \<Rightarrow> py_exception + provider_error" where
  "LLMProviderError_init c msg kw =
     bind_exc (bind_positional [''self'', ''message''] kw) (\<lambda>kw1.
       Inr \<lparr>cls = c, message = msg, err_provider = kw_get kw1 ''provider'' PNone,
            err_metadata = kw_del kw1 ''provider'', attrs = []\<rparr>)"

text \<open>\<^verbatim>\<open>RateLimitError.__init__(self, provider, retry_after=None, **kwargs)\<close>.\<close>

definition RateLimitError_init :: "string \<Rightarrow> kwargs \<Rightarrow> py_exception + provider_error" where
  "RateLimitError_init provider kw =
     bind_exc (bind_positional [''self'', ''provider''] kw) (\<lambda>kw1.
       let retry_after = kw_get kw1 ''retry_after'' PNone;
           rest = kw_del kw1 ''retry_after''
       in bind_exc (call_keywords [(''provider'', PStr provider)] rest) (\<lambda>kw2.
          bind_exc (LLMProviderError_init RateLimitError
                     (''Rate limit exceeded for '' @ provider @
                        (if truthy retry_after then '', retry after '' @ py_str retry_after @ ''s''
                         else ''''))
                     kw2) (\<lambda>e.
          Inr (e\<lparr>attrs := [(''retry_after'', retry_after)]\<rparr>))))"

text \<open>
  The classes whose \<^verbatim>\<open>__init__(self, provider, **kwargs)\<close> only builds a message:
  \<^verbatim>\<open>QuotaExceededError\<close>, \<^verbatim>\<open>AuthenticationError\<close> and \<^verbatim>\<open>ProviderUnavailableError\<close>.
\<close>

definition provider_only_init :: "exc_class \<Rightarrow> string \<Rightarrow> string \<Rightarrow> kwargs \<Rightarrow> py_exception + provider_error" where
  "provider_only_init c msg provider kw =
     bind_exc (bind_positional [''self'', ''provider''] kw) (\<lambda>kw1.
     bind_exc (call_keywords [(''provider'', PStr provider)] kw1) (\<lambda>kw2.
       LLMProviderError_init c msg kw2))"

definition QuotaExceededError_init :: "string \<Rightarrow> kwargs \<Rightarrow> py_exception + provider_error" where
  "QuotaExceededError_init provider kw =
     provider_only_init QuotaExceededError
       (''Quota exceeded for '' @ provider @ ''. Add credits or increase limits.'') provider kw"

definition AuthenticationError_init :: "string \<Rightarrow> kwargs \<Rightarrow> py_exception + provider_error" where
  "AuthenticationError_init provider kw =
     provider_only_init AuthenticationError
       (''Authentication failed for '' @ provider @ ''. Check API key/credentials.'') provider kw"

definition ProviderUnavailableError_init :: "string \<Rightarrow> kwargs \<Rightarrow> py_exception + provider_error" where
  "ProviderUnavailableError_init provider kw =
     provider_only_init ProviderUnavailableError
       (''Provider '' @ provider @ '' is unavailable or unreachable.'') provider kw"

text \<open>
  \<^verbatim>\<open>ModelNotFoundError.__init__(self, provider, model, available_models=None, **kwargs)\<close>.
  \<^verbatim>\<open>', '.join(available_models[:5])\<close> works on a string (it joins its first five
  characters) and raises \<^verbatim>\<open>TypeError\<close> on a true boolean or a non-zero integer.
\<close>

definition ModelNotFoundError_init :: "string \<Rightarrow> kwargs \<Rightarrow> py_exception + provider_error" where
  "ModelNotFoundError_init provider kw =
     bind_exc (bind_positional [''self'', ''provider''] kw) (\<lambda>kw1.
       case map_of kw1 ''model'' of
         None \<Rightarrow> Inl (TypeError ''missing 1 required positional argument: model'')
       | Some model \<Rightarrow>
           let available_models = kw_get kw1 ''available_models'' PNone;
               rest = kw_del (kw_del kw1 ''model'') ''available_models'';
               msg = ''Model '' @ [CHR 0x27] @ py_str model @ [CHR 0x27] @ '' not found on '' @ provider
           in bind_exc
                (if truthy available_models then
                   (case available_models of
                      PStr s \<Rightarrow> Inr (msg @ ''. Available: '' @ join '', '' (map (\<lambda>c. [c]) (take 5 s)))
                    | _ \<Rightarrow> Inl (TypeError ''object is not subscriptable''))
                 else Inr msg) (\<lambda>msg'.
              bind_exc (call_keywords [(''provider'', PStr provider)] rest) (\<lambda>kw2.
              bind_exc (LLMProviderError_init ModelNotFoundError msg' kw2) (\<lambda>e.
              Inr (e\<lparr>attrs := [(''model'', model), (''available_models'', available_models)]\<rparr>)))))"

text \<open>\<^verbatim>\<open>InvalidRequestError.__init__(self, provider, parameter, reason, **kwargs)\<close>.\<close>

definition InvalidRequestError_init :: "string \<Rightarrow> kwargs \<Rightarrow> py_exception + provider_error" where
  "InvalidRequestError_init provider kw =
     bind_exc (bind_positional [''self'', ''provider''] kw) (\<lambda>kw1.
       case (map_of kw1 ''parameter'', map_of kw1 ''reason'') of
         (Some parameter, Some reason) \<Rightarrow>
           bind_exc (call_keywords [(''provider'', PStr provider)]
                       (kw_del (kw_del kw1 ''parameter'') ''reason'')) (\<lambda>kw2.
           bind_exc (LLMProviderError_init InvalidRequestError
                       (''Invalid '' @ py_str parameter @ '' for '' @ provider @ '': '' @ py_str reason)
                       kw2) (\<lambda>e.
           Inr (e\<lparr>attrs := [(''parameter'', parameter), (''reason'', reason)]\<rparr>)))
       | _ \<Rightarrow> Inl (TypeError ''missing required positional arguments''))"

subsection \<open>\<^verbatim>\<open>from_http_status\<close>\<close>

text \<open>
  \<^verbatim>\<open>from_http_status(status_code, provider, response_text="", **kwargs)\<close>, called with
  its three parameters by position and the keywords \<open>kwargs\<close>. It returns the
  exception object (\<open>Inr\<close>); \<open>Inl\<close> is an exception raised while building it.
\<close>

definition from_http_status :: "int \<Rightarrow> string \<Rightarrow> string \<Rightarrow> kwargs \<Rightarrow> py_exception + provider_error" where
  "from_http_status status_code provider response_text kwargs0 =
     bind_exc (bind_positional [''status_code'', ''provider'', ''response_text''] kwargs0) (\<lambda>kwargs.
       if status_code = 401 \<or> status_code = 403 then
         bind_exc (call_keywords [(''response'', PStr response_text)] kwargs)
           (AuthenticationError_init provider)
       else if status_code = 429 then
         let retry_after = kw_get kwargs ''retry_after'' PNone in
         bind_exc (call_keywords [(''retry_after'', retry_after), (''response'', PStr response_text)] kwargs)
           (RateLimitError_init provider)
       else if status_code = 402 \<or> str_contains ''quota'' (lower response_text) then
         bind_exc (call_keywords [(''response'', PStr response_text)] kwargs)
           (QuotaExceededError_init provider)
       else if status_code = 404 then
         bind_exc (call_keywords [(''model'', kw_get kwargs ''model'' (PStr ''unknown''))] kwargs)
           (ModelNotFoundError_init provider)
       else if status_code = 400 then
         bind_exc (call_keywords [(''parameter'', PStr ''unknown''), (''reason'', PStr response_text)] kwargs)
           (InvalidRequestError_init provider)
       else if status_code = 503 \<or> status_code = 502 then
         bind_exc (call_keywords [(''response'', PStr response_text)] kwargs)
           (ProviderUnavailableError_init provider)
       else
         bind_exc (call_keywords [(''provider'', PStr provider), (''status_code'', PInt status_code)] kwargs)
           (LLMProviderError_init LLMProviderError
              (''HTTP '' @ str_int status_code @ '' error from '' @ provider @ '': '' @ response_text)))"

subsection \<open>What the classification returns\<close>

text \<open>
  The class of the returned error and the \<^verbatim>\<open>status_code\<close> entry of its metadata;
  \<open>None\<close> when building the error raised.
\<close>

definition kind_and_status :: "py_exception + provider_error \<Rightarrow> (exc_class \<times> pyval option) option" where
  "kind_and_status r =
     (case r of Inl e \<Rightarrow> None | Inr e \<Rightarrow> Some (cls e, map_of (err_metadata e) ''status_code''))"

lemmas init_defs =
  bind_exc_def bind_positional_def call_keywords_def kw_get_def kw_del_def
  LLMProviderError_init_def RateLimitError_init_def provider_only_init_def
  QuotaExceededError_init_def AuthenticationError_init_def ProviderUnavailableError_init_def
  ModelNotFoundError_init_def InvalidRequestError_init_def

lemma map_of_filter_keys:
  "filter P (map fst kw) = [] \<Longrightarrow> P k \<Longrightarrow> map_of kw k = None"
  by (induction kw) (auto split: if_splits)

text \<open>
  Claim C5, as the code has it. Called with a status code, a provider and a response
  body (no further keywords), \<^verbatim>\<open>from_http_status\<close> always returns an error, and its
  class is decided in this order: 401 and 403 give \<^verbatim>\<open>AuthenticationError\<close>; 429 gives
  \<^verbatim>\<open>RateLimitError\<close>; then 402, or any other status whose body contains \<^verbatim>\<open>quota\<close> in
  any letter case, gives \<^verbatim>\<open>QuotaExceededError\<close>; only a body without that marker
  lets 404 give \<^verbatim>\<open>ModelNotFoundError\<close>, 400 give \<^verbatim>\<open>InvalidRequestError\<close>, 502 and 503
  give \<^verbatim>\<open>ProviderUnavailableError\<close>, and every other status give the base
  \<^verbatim>\<open>LLMProviderError\<close>, which alone carries the status code. The result is a function
  of the three inputs.
\<close>

theorem from_http_status_kind:
  "kind_and_status (from_http_status status_code provider response_text []) =
     Some (if status_code = 401 \<or> status_code = 403 then (AuthenticationError, None)
           else if status_code = 429 then (RateLimitError, None)
           else if status_code = 402 \<or> str_contains ''quota'' (lower response_text)
             then (QuotaExceededError, None)
           else if status_code = 404 then (ModelNotFoundError, None)
           else if status_code = 400 then (InvalidRequestError, None)
           else if status_code = 503 \<or> status_code = 502 then (ProviderUnavailableError, None)
           else (LLMProviderError, Some (PInt status_code)))"
  by (simp add: kind_and_status_def from_http_status_def init_defs)

text \<open>
  Claim C5 as stated fails: status 404 with a body that mentions a quota is classified
  as \<^verbatim>\<open>QuotaExceededError\<close>, not as \<^verbatim>\<open>ModelNotFoundError\<close>.
\<close>

theorem from_http_status_404_quota_body:
  "kind_and_status (from_http_status 404 ''openai'' ''Quota exceeded'' []) =
     Some (QuotaExceededError, None)
   \<and> kind_and_status (from_http_status 404 ''openai'' ''Quota exceeded'' []) \<noteq>
     Some (ModelNotFoundError, None)"
  by code_simp

text \<open>
  Claim C4, the classification step. Status 429 with \<^verbatim>\<open>retry_after=5\<close> does not yield a
  \<^verbatim>\<open>RateLimitError\<close>: the call \<^verbatim>\<open>RateLimitError(provider, retry_after=retry_after,
  response=response_text, **kwargs)\<close> passes \<^verbatim>\<open>retry_after\<close> twice, once explicitly and
  once inside \<^verbatim>\<open>kwargs\<close>, and Python raises \<^verbatim>\<open>TypeError\<close>.
\<close>

theorem from_http_status_429_retry_after_5:
  "from_http_status 429 ''gemini'' [] [(''retry_after'', PInt 5)] =
     Inl (TypeError ''got multiple values for keyword argument retry_after'')"
  by code_simp

text \<open>
  Whenever status 429 does yield an error, it is a \<^verbatim>\<open>RateLimitError\<close> whose
  \<^verbatim>\<open>retry_after\<close> is \<^verbatim>\<open>None\<close>: no input makes the function return a retry-after hint.
\<close>

lemma from_http_status_429_retry_after_None:
  assumes "from_http_status 429 provider body kw = Inr e"
  shows "cls e = RateLimitError \<and> attrs e = [(''retry_after'', PNone)]"
proof (cases "filter (\<lambda>k. k \<in> set (map fst [(''retry_after'', kw_get kw ''retry_after'' PNone), (''response'', PStr body)])) (map fst kw)")
  case Nil
  then have "map_of kw ''retry_after'' = None"
    by (rule map_of_filter_keys) simp
  with assms show ?thesis
    by (auto simp add: from_http_status_def init_defs split: sum.splits list.splits if_splits option.splits)
next
  case (Cons k ks)
  with assms show ?thesis
    by (auto simp add: from_http_status_def init_defs split: sum.splits list.splits if_splits option.splits)
qed

section \<open>Pricing tables and \<^verbatim>\<open>calculate_cost\<close>\<close>

text \<open>
  \<^verbatim>\<open>get_cost_per_token\<close> returns a dictionary with the keys \<^verbatim>\<open>"input"\<close> and
  \<^verbatim>\<open>"output"\<close>; here it is a record with the fields \<open>input_cost\<close> and \<open>output_cost\<close>.
  The method is abstract in \<^verbatim>\<open>BaseLLMProvider\<close> and defined by each of the three
  provider classes, so the model dispatches on the class of \<^verbatim>\<open>self\<close>.
\<close>

record cost_per_token =
  input_cost :: rat
  output_cost :: rat

datatype provider_class = AnthropicProvider | OpenAIProvider | GeminiProvider

text \<open>\<^verbatim>\<open>d.get(k, dflt)\<close> on a dictionary written as a literal.\<close>

definition dict_get :: "(string \<times> 'a) list \<Rightarrow> string \<Rightarrow> 'a \<Rightarrow> 'a" where
  "dict_get d k dflt = (case map_of d k of None \<Rightarrow> dflt | Some v \<Rightarrow> v)"

subsection \<open>Binary floating-point arithmetic\<close>

text \<open>
  The nearest integer, a tie going to the even one.
\<close>

definition round_half_even :: "rat \<Rightarrow> int" where
  "round_half_even x =
     (let f = \<lfloor>x\<rfloor>; d = x - of_int f
      in if d < 1 / 2 then f else if d > 1 / 2 then f + 1 else if even f then f else f + 1)"

text \<open>
  A Python \<^verbatim>\<open>float\<close> is a binary64 number: a multiple, by an integer below \<open>2\<^sup>5\<^sup>3\<close> in
  absolute value, of a power of two. \<open>float_exponent x\<close> is the exponent \<open>e\<close> with
  \<open>2\<^sup>e \<le> \<bar>x\<bar> < 2\<^sup>e\<^sup>+\<^sup>1\<close> (for \<open>x\<close> other than 0), found from the lengths in bits of the
  numerator and the denominator. \<open>fl x\<close> is the binary64 number nearest to \<open>x\<close>, a tie
  going to the even significand: what every arithmetic operation on floats, and the
  conversion of an \<^verbatim>\<open>int\<close>, returns in place of the exact result. The exponent is not
  bounded here: for a magnitude between \<open>2\<^sup>-\<^sup>1\<^sup>0\<^sup>2\<^sup>2\<close> and \<open>2\<^sup>1\<^sup>0\<^sup>2\<^sup>4\<close>, where the values
  of \<^verbatim>\<open>calculate_cost\<close> lie for every token count below \<open>2\<^sup>1\<^sup>0\<^sup>2\<^sup>3\<close>, this is the
  arithmetic of Python.
\<close>

definition float_exponent :: "rat \<Rightarrow> int" where
  "float_exponent x =
     (let (p, q) = quotient_of \<bar>x\<bar>; e = bitlen p - bitlen q
      in if 2 powi e \<le> \<bar>x\<bar> then e else e - 1)"

definition fl :: "rat \<Rightarrow> rat" where
  "fl x =
     (if x = 0 then 0
      else (let ulp = 2 powi (float_exponent x - 52)
            in of_int (round_half_even (x / ulp)) * ulp))"

text \<open>\<^verbatim>\<open>float(n)\<close> for an \<^verbatim>\<open>int\<close>, and \<^verbatim>\<open>x * y\<close>, \<^verbatim>\<open>x + y\<close>, \<^verbatim>\<open>x / y\<close> for floats.\<close>

definition float_of_int :: "int \<Rightarrow> rat" where
  "float_of_int n = fl (of_int n)"

definition float_mul :: "rat \<Rightarrow> rat \<Rightarrow> rat" where
  "float_mul x y = fl (x * y)"

definition float_add :: "rat \<Rightarrow> rat \<Rightarrow> rat" where
  "float_add x y = fl (x + y)"

definition float_div :: "rat \<Rightarrow> rat \<Rightarrow> rat" where
  "float_div x y = fl (x / y)"

text \<open>
  \<^verbatim>\<open>round(x, ndigits)\<close> for a float \<open>x\<close> and \<^verbatim>\<open>ndigits\<close> not negative: CPython writes
  the exact value of \<open>x\<close> in decimal, correctly rounded to \<^verbatim>\<open>ndigits\<close> places (a tie
  going to the even digit), and reads the result back as a float.
\<close>

definition py_round :: "rat \<Rightarrow> nat \<Rightarrow> rat" where
  "py_round x ndigits = fl (of_int (round_half_even (x * 10 ^ ndigits)) / 10 ^ ndigits)"

subsection \<open>The tables\<close>

text \<open>
  The prices are written \<^verbatim>\<open>3.0 / 1_000_000\<close>: a division of floats. The literals
  (\<^verbatim>\<open>0.25\<close>, \<^verbatim>\<open>0.50\<close>, \<^verbatim>\<open>1.25\<close>, \<^verbatim>\<open>1.50\<close> and the whole numbers) are binary64 numbers
  as they stand.
\<close>

definition anthropic_pricing :: "(string \<times> cost_per_token) list" where
  "anthropic_pricing =
     [(''claude-3-5-sonnet-20241022'',
       \<lparr>input_cost = float_div 3 1000000, output_cost = float_div 15 1000000\<rparr>),
      (''claude-3-5-haiku-20241022'',
       \<lparr>input_cost = float_div 1 1000000, output_cost = float_div 5 1000000\<rparr>),
      (''claude-3-opus-20240229'',
       \<lparr>input_cost = float_div 15 1000000, output_cost = float_div 75 1000000\<rparr>),
      (''claude-3-sonnet-20240229'',
       \<lparr>input_cost = float_div 3 1000000, output_cost = float_div 15 1000000\<rparr>),
      (''claude-3-haiku-20240307'',
       \<lparr>input_cost = float_div (1 / 4) 1000000, output_cost = float_div (5 / 4) 1000000\<rparr>)]"

definition openai_pricing :: "(string \<times> cost_per_token) list" where
  "openai_pricing =
     [(''gpt-4-turbo'', \<lparr>input_cost = float_div 10 1000000, output_cost = float_div 30 1000000\<rparr>),
      (''gpt-4-turbo-preview'',
       \<lparr>input_cost = float_div 10 1000000, output_cost = float_div 30 1000000\<rparr>),
      (''gpt-4'', \<lparr>input_cost = float_div 30 1000000, output_cost = float_div 60 1000000\<rparr>),
      (''gpt-4-0125-preview'',
       \<lparr>input_cost = float_div 10 1000000, output_cost = float_div 30 1000000\<rparr>),
      (''gpt-4o'', \<lparr>input_cost = float_div 5 1000000, output_cost = float_div 15 1000000\<rparr>),
      (''gpt-3.5-turbo'',
       \<lparr>input_cost = float_div (1 / 2) 1000000, output_cost = float_div (3 / 2) 1000000\<rparr>),
      (''gpt-3.5-turbo-0125'',
       \<lparr>input_cost = float_div (1 / 2) 1000000, output_cost = float_div (3 / 2) 1000000\<rparr>)]"

fun get_cost_per_token :: "provider_class \<Rightarrow> string \<Rightarrow> cost_per_token" where
  "get_cost_per_token AnthropicProvider model =
     dict_get anthropic_pricing model
       \<lparr>input_cost = float_div 3 1000000, output_cost = float_div 15 1000000\<rparr>"
| "get_cost_per_token OpenAIProvider model =
     dict_get openai_pricing model
       \<lparr>input_cost = float_div 10 1000000, output_cost = float_div 30 1000000\<rparr>"
| "get_cost_per_token GeminiProvider model =
     (if str_contains ''flash'' (lower model) then \<lparr>input_cost = 0, output_cost = 0\<rparr>
      else if str_contains ''pro'' (lower model) then \<lparr>input_cost = 0, output_cost = 0\<rparr>
      else \<lparr>input_cost = 0, output_cost = 0\<rparr>)"

text \<open>
  \<^verbatim>\<open>BaseLLMProvider.calculate_cost(self, input_tokens, output_tokens, model)\<close>: the
  token counts are integers, the prices floats, so each product converts the count
  and rounds, the sum rounds, and \<^verbatim>\<open>round(total, 6)\<close> rounds twice more.
\<close>

definition calculate_cost :: "provider_class \<Rightarrow> int \<Rightarrow> int \<Rightarrow> string \<Rightarrow> rat" where
  "calculate_cost self input_tokens output_tokens model =
     (let costs = get_cost_per_token self model;
          total = float_add (float_mul (float_of_int input_tokens) (input_cost costs))
                            (float_mul (float_of_int output_tokens) (output_cost costs))
      in py_round total 6)"

subsection \<open>Rounding\<close>

lemma two_powi_pos [simp]: "0 < (2::rat) powi e"
  by (simp add: zero_less_power_int)

lemma two_powi_Suc: "(2::rat) powi (e + 1) = 2 * 2 powi e"
  by (simp add: power_int_add)

lemma float_exponent_bounds:
  assumes "x \<noteq> 0"
  shows "2 powi float_exponent x \<le> \<bar>x\<bar>" and "\<bar>x\<bar> < 2 powi (float_exponent x + 1)"
proof -
  obtain p q where pq: "quotient_of \<bar>x\<bar> = (p, q)" by (cases "quotient_of \<bar>x\<bar>")
  have q: "0 < q" using pq by (rule quotient_of_denom_pos)
  have x: "\<bar>x\<bar> = of_int p / of_int q" using pq by (rule quotient_of_div)
  have "0 < \<bar>x\<bar>" using assms by simp
  then have p: "0 < p" using q unfolding x by (simp add: zero_less_divide_iff)
  define bp where "bp = nat (bitlen p - 1)"
  define bq where "bq = nat (bitlen q - 1)"
  have blp: "bitlen p = int bp + 1" using bitlen_bounds[OF p] bitlen_nonneg[of p] p
    unfolding bp_def by (smt (verit) bitlen_eq_zero_iff nat_0_le)
  have blq: "bitlen q = int bq + 1" using bitlen_bounds[OF q] bitlen_nonneg[of q] q
    unfolding bq_def by (smt (verit) bitlen_eq_zero_iff nat_0_le)
  have p1: "2 ^ bp \<le> p" "p < 2 ^ Suc bp"
    using bitlen_bounds[OF p] unfolding blp by (simp_all add: nat_add_distrib)
  have q1: "2 ^ bq \<le> q" "q < 2 ^ Suc bq"
    using bitlen_bounds[OF q] unfolding blq by (simp_all add: nat_add_distrib)
  have p2: "(2::rat) ^ bp \<le> of_int p" "(of_int p :: rat) < 2 ^ Suc bp"
    using p1 by (metis of_int_le_iff of_int_numeral of_int_power, metis of_int_less_iff of_int_numeral of_int_power)
  have q2: "(2::rat) ^ bq \<le> of_int q" "(of_int q :: rat) < 2 ^ Suc bq"
    using q1 by (metis of_int_le_iff of_int_numeral of_int_power, metis of_int_less_iff of_int_numeral of_int_power)
  have qpos: "(0::rat) < of_int q" using q by simp
  have e: "bitlen p - bitlen q = int bp - int bq" unfolding blp blq by simp
  have pw: "(2::rat) powi (int bp - int bq) = 2 ^ bp / 2 ^ bq"
    by (simp add: power_int_diff)
  have lower: "2 powi (int bp - int bq - 1) < \<bar>x\<bar>"
  proof -
    have "(2::rat) powi (int bp - int bq - 1) = 2 ^ bp / 2 ^ Suc bq"
      by (simp add: power_int_diff)
    also have "\<dots> < of_int p / of_int q"
      using p2 q2 qpos p by (intro frac_less2) simp_all
    finally show ?thesis unfolding x .
  qed
  have upper: "\<bar>x\<bar> < 2 powi (int bp - int bq + 1)"
  proof -
    have "of_int p / of_int q < (2::rat) ^ Suc bp / 2 ^ bq"
      using p2 q2 qpos p by (intro frac_less) simp_all
    also have "\<dots> = 2 powi (int bp - int bq + 1)"
      by (simp add: power_int_diff power_int_add)
    finally show ?thesis unfolding x .
  qed
  have fe: "float_exponent x =
            (if 2 powi (int bp - int bq) \<le> \<bar>x\<bar> then int bp - int bq else int bp - int bq - 1)"
    unfolding float_exponent_def pq by (simp add: Let_def e)
  show "2 powi float_exponent x \<le> \<bar>x\<bar>"
    using lower unfolding fe by simp
  show "\<bar>x\<bar> < 2 powi (float_exponent x + 1)"
  proof (cases "2 powi (int bp - int bq) \<le> \<bar>x\<bar>")
    case True
    then show ?thesis using upper unfolding fe by simp
  next
    case False
    then show ?thesis unfolding fe by simp
  qed
qed


lemma round_half_even_mono: "x \<le> y \<Longrightarrow> round_half_even x \<le> round_half_even y"
proof -
  assume xy: "x \<le> y"
  have fl: "\<lfloor>x\<rfloor> \<le> \<lfloor>y\<rfloor>" using xy by (rule floor_mono)
  have lo: "\<And>z. \<lfloor>z\<rfloor> \<le> round_half_even z" by (simp add: round_half_even_def Let_def)
  have hi: "\<And>z. round_half_even z \<le> \<lfloor>z\<rfloor> + 1" by (simp add: round_half_even_def Let_def)
  show ?thesis
  proof (cases "\<lfloor>x\<rfloor> = \<lfloor>y\<rfloor>")
    case True
    with xy show ?thesis by (auto simp add: round_half_even_def Let_def)
  next
    case False
    with fl have "\<lfloor>x\<rfloor> + 1 \<le> \<lfloor>y\<rfloor>" by simp
    with lo[of y] hi[of x] show ?thesis by linarith
  qed
qed

lemma round_half_even_of_int [simp]: "round_half_even (of_int k) = k"
  by (simp add: round_half_even_def)

lemma round_half_even_0 [simp]: "round_half_even 0 = 0"
  by (simp add: round_half_even_def)

lemma round_half_even_numeral [simp]: "round_half_even (numeral k) = numeral k"
  using round_half_even_of_int[of "numeral k"] by simp

lemma round_half_even_error: "\<bar>of_int (round_half_even x) - x\<bar> \<le> 1 / 2"
proof -
  have lo: "of_int \<lfloor>x\<rfloor> \<le> x" by simp
  have hi: "x < of_int \<lfloor>x\<rfloor> + 1" by linarith
  show ?thesis
    using lo hi unfolding round_half_even_def Let_def
    by (auto simp add: abs_le_iff)
qed

lemma fl_0 [simp]: "fl 0 = 0"
  by (simp add: fl_def)

lemma fl_error: "\<bar>fl x - x\<bar> \<le> \<bar>x\<bar> / 2 ^ 53"
proof (cases "x = 0")
  case True
  then show ?thesis by simp
next
  case False
  define u :: rat where "u = 2 powi (float_exponent x - 52)"
  have u: "0 < u" unfolding u_def by simp
  have flx: "fl x = of_int (round_half_even (x / u)) * u"
    using False by (simp add: fl_def u_def Let_def)
  have "fl x - x = (of_int (round_half_even (x / u)) - x / u) * u"
    using u unfolding flx by (simp add: field_simps)
  then have "\<bar>fl x - x\<bar> = \<bar>of_int (round_half_even (x / u)) - x / u\<bar> * u"
    using u by (simp add: abs_mult)
  also have "\<dots> \<le> (1 / 2) * u"
    using u by (intro mult_right_mono round_half_even_error) simp
  also have "(1 / 2) * u = 2 powi float_exponent x / 2 ^ 53"
    unfolding u_def by (simp add: power_int_diff)
  also have "\<dots> \<le> \<bar>x\<bar> / 2 ^ 53"
    using float_exponent_bounds(1)[OF False] by (intro divide_right_mono) simp_all
  finally show ?thesis .
qed

lemma fl_binade:
  assumes "0 < x"
  shows "2 powi float_exponent x \<le> fl x" and "fl x \<le> 2 powi (float_exponent x + 1)"
proof -
  define u :: rat where "u = 2 powi (float_exponent x - 52)"
  have u: "0 < u" unfolding u_def by simp
  have x0: "x \<noteq> 0" using assms by simp
  have flx: "fl x = of_int (round_half_even (x / u)) * u"
    using x0 by (simp add: fl_def u_def Let_def)
  have lo: "2 powi float_exponent x = of_int (2 ^ 52) * u"
    unfolding u_def by (simp add: power_int_diff)
  have hi: "2 powi (float_exponent x + 1) = of_int (2 ^ 53) * u"
    unfolding u_def by (simp add: power_int_diff power_int_add)
  have b: "2 powi float_exponent x \<le> x" "x < 2 powi (float_exponent x + 1)"
    using float_exponent_bounds[OF x0] assms by simp_all
  have "of_int (2 ^ 52) \<le> x / u"
    using b(1) u unfolding lo by (simp add: field_simps)
  from round_half_even_mono[OF this]
  have "2 ^ 52 \<le> round_half_even (x / u)" by simp
  then have "(of_int (2 ^ 52) :: rat) \<le> of_int (round_half_even (x / u))"
    by (simp only: of_int_le_iff)
  then show "2 powi float_exponent x \<le> fl x"
    unfolding lo flx using u by (intro mult_right_mono) simp_all
  have "x / u \<le> of_int (2 ^ 53)"
    using b(2) u unfolding hi by (simp add: field_simps)
  from round_half_even_mono[OF this]
  have "round_half_even (x / u) \<le> 2 ^ 53" by simp
  then have "(of_int (round_half_even (x / u)) :: rat) \<le> of_int (2 ^ 53)"
    by (simp only: of_int_le_iff)
  then show "fl x \<le> 2 powi (float_exponent x + 1)"
    unfolding hi flx using u by (intro mult_right_mono) simp_all
qed

lemma fl_nonneg: "0 \<le> x \<Longrightarrow> 0 \<le> fl x"
proof (cases "x = 0")
  case True
  then show ?thesis by simp
next
  case False
  assume "0 \<le> x"
  with False have "0 < x" by simp
  from fl_binade(1)[OF this] show ?thesis
    using two_powi_pos[of "float_exponent x"] by linarith
qed

lemma fl_mono:
  assumes "0 \<le> x" and "x \<le> y"
  shows "fl x \<le> fl y"
proof (cases "x = 0")
  case True
  then show ?thesis using assms fl_nonneg[of y] by simp
next
  case False
  then have x: "0 < x" and y: "0 < y" using assms by simp_all
  have bx: "2 powi float_exponent x \<le> x" "x < 2 powi (float_exponent x + 1)"
    using float_exponent_bounds[of x] x by simp_all
  have bnd_y: "2 powi float_exponent y \<le> y" "y < 2 powi (float_exponent y + 1)"
    using float_exponent_bounds[of y] y by simp_all
  have lt: "(2::rat) powi float_exponent x < 2 powi (float_exponent y + 1)"
    using bx(1) bnd_y(2) assms(2) by linarith
  have le: "float_exponent x \<le> float_exponent y"
  proof (rule ccontr)
    assume "\<not> float_exponent x \<le> float_exponent y"
    then have "float_exponent y + 1 \<le> float_exponent x" by simp
    then have "(2::rat) powi (float_exponent y + 1) \<le> 2 powi float_exponent x"
      by (intro power_int_increasing) simp_all
    with lt show False by simp
  qed
  show ?thesis
  proof (cases "float_exponent x = float_exponent y")
    case True
    define u :: rat where "u = 2 powi (float_exponent y - 52)"
    have u: "0 < u" unfolding u_def by simp
    have "x / u \<le> y / u" using assms(2) u by (simp add: divide_right_mono)
    from round_half_even_mono[OF this]
    have "(of_int (round_half_even (x / u)) :: rat) \<le> of_int (round_half_even (y / u))"
      by (simp only: of_int_le_iff)
    then have "of_int (round_half_even (x / u)) * u \<le> of_int (round_half_even (y / u)) * u"
      using u by (intro mult_right_mono) simp_all
    then show ?thesis
      using x y True by (simp add: fl_def u_def Let_def)
  next
    case False
    with le have "float_exponent x + 1 \<le> float_exponent y" by simp
    then have "(2::rat) powi (float_exponent x + 1) \<le> 2 powi float_exponent y"
      by (intro power_int_increasing) simp_all
    with fl_binade(2)[OF x] fl_binade(1)[OF y] show ?thesis by linarith
  qed
qed

lemma fl_le_twice:
  assumes "0 \<le> x"
  shows "fl x \<le> 2 * x"
proof -
  have "x / 2 ^ 53 \<le> x" using assms by (simp add: field_simps)
  moreover have "fl x - x \<le> x / 2 ^ 53" using fl_error[of x] assms by linarith
  ultimately show ?thesis by linarith
qed

lemma py_round_mono:
  assumes "0 \<le> x" and "x \<le> y"
  shows "py_round x n \<le> py_round y n"
proof -
  have "0 \<le> x * 10 ^ n" using assms(1) by simp
  from round_half_even_mono[OF this] have r0: "0 \<le> round_half_even (x * 10 ^ n)" by simp
  have "x * 10 ^ n \<le> y * 10 ^ n" using assms(2) by simp
  from round_half_even_mono[OF this]
  have "(of_int (round_half_even (x * 10 ^ n)) :: rat) \<le> of_int (round_half_even (y * 10 ^ n))"
    by (simp only: of_int_le_iff)
  then have "(of_int (round_half_even (x * 10 ^ n)) :: rat) / 10 ^ n
             \<le> of_int (round_half_even (y * 10 ^ n)) / 10 ^ n"
    by (intro divide_right_mono) simp_all
  moreover have "(0::rat) \<le> of_int (round_half_even (x * 10 ^ n)) / 10 ^ n"
    using r0 by simp
  ultimately show ?thesis unfolding py_round_def by (intro fl_mono)
qed

lemma py_round_0 [simp]: "py_round 0 n = 0"
  by (simp add: py_round_def)

lemma py_round_nonneg: "0 \<le> x \<Longrightarrow> 0 \<le> py_round x n"
  using py_round_mono[of 0 x n] by simp

lemma py_round_error:
  assumes "0 \<le> x"
  shows "\<bar>py_round x n - x\<bar> \<le> 1 / (2 * 10 ^ n) + (x + 1 / (2 * 10 ^ n)) / 2 ^ 53"
proof -
  define r :: rat where "r = of_int (round_half_even (x * 10 ^ n)) / 10 ^ n"
  have "0 \<le> x * 10 ^ n" using assms by simp
  from round_half_even_mono[OF this] have "0 \<le> round_half_even (x * 10 ^ n)" by simp
  then have r0: "0 \<le> r" unfolding r_def by simp
  have "r - x = (of_int (round_half_even (x * 10 ^ n)) - x * 10 ^ n) / 10 ^ n"
    unfolding r_def by (simp add: field_simps)
  then have "\<bar>r - x\<bar> = \<bar>of_int (round_half_even (x * 10 ^ n)) - x * 10 ^ n\<bar> / 10 ^ n"
    by (simp add: abs_divide)
  also have "\<dots> \<le> (1 / 2) / 10 ^ n"
    by (intro divide_right_mono round_half_even_error) simp
  finally have e1: "\<bar>r - x\<bar> \<le> 1 / (2 * 10 ^ n)" by simp
  then have rle: "r \<le> x + 1 / (2 * 10 ^ n)" by (simp add: abs_le_iff)
  have "\<bar>fl r - r\<bar> \<le> r / 2 ^ 53" using fl_error[of r] r0 by simp
  also have "\<dots> \<le> (x + 1 / (2 * 10 ^ n)) / 2 ^ 53"
    using rle by (intro divide_right_mono) simp_all
  finally have e2: "\<bar>fl r - r\<bar> \<le> (x + 1 / (2 * 10 ^ n)) / 2 ^ 53" .
  have "\<bar>py_round x n - x\<bar> \<le> \<bar>fl r - r\<bar> + \<bar>r - x\<bar>"
    unfolding py_round_def r_def by simp
  with e1 e2 show ?thesis by linarith
qed

subsection \<open>Prices\<close>

lemma prices_nonneg:
  "0 \<le> input_cost (get_cost_per_token self model) \<and> 0 \<le> output_cost (get_cost_per_token self model)"
  by (cases self)
    (simp_all add: dict_get_def anthropic_pricing_def openai_pricing_def float_div_def fl_nonneg)

text \<open>A model that is no key of the table gets the default entry of its provider.\<close>

lemma unknown_model_default_pricing:
  "model \<notin> set (map fst anthropic_pricing) \<Longrightarrow>
     get_cost_per_token AnthropicProvider model =
       \<lparr>input_cost = float_div 3 1000000, output_cost = float_div 15 1000000\<rparr>"
  "model \<notin> set (map fst openai_pricing) \<Longrightarrow>
     get_cost_per_token OpenAIProvider model =
       \<lparr>input_cost = float_div 10 1000000, output_cost = float_div 30 1000000\<rparr>"
  by (simp_all add: dict_get_def map_of_eq_None_iff[THEN iffD2] image_iff)

lemma gemini_cost_per_token_zero:
  "get_cost_per_token GeminiProvider model = \<lparr>input_cost = 0, output_cost = 0\<rparr>"
  by simp

lemma gemini_calculate_cost_zero: "calculate_cost GeminiProvider n_in n_out model = 0"
  by (simp add: calculate_cost_def float_mul_def float_add_def)

text \<open>
  Two costs where the binary rounding shows: twice the price \<^verbatim>\<open>1.25 / 1_000_000\<close> lies
  above \<open>2.5\<close> millionths and nine times \<^verbatim>\<open>1.50 / 1_000_000\<close> lies below \<open>13.5\<close>
  millionths, so Python prints \<^verbatim>\<open>3e-06\<close> and \<^verbatim>\<open>1.3e-05\<close>.
\<close>

lemma calculate_cost_haiku_0_2:
  "calculate_cost AnthropicProvider 0 2 ''claude-3-haiku-20240307'' = fl (3 / 1000000)"
  by code_simp

lemma calculate_cost_gpt35_0_9:
  "calculate_cost OpenAIProvider 0 9 ''gpt-3.5-turbo'' = fl (13 / 1000000)"
  by code_simp

subsection \<open>The error of the float arithmetic\<close>

lemma float_product_error:
  assumes "0 \<le> n" and "0 \<le> p"
  shows "0 \<le> fl (fl n * p)" and "\<bar>fl (fl n * p) - n * p\<bar> \<le> 3 * (n * p) / 2 ^ 53"
proof -
  define a where "a = fl n"
  define X where "X = n * p"
  define AP where "AP = a * p"
  have X: "0 \<le> X" unfolding X_def using assms by simp
  have a: "0 \<le> a" unfolding a_def using assms(1) by (rule fl_nonneg)
  have AP: "0 \<le> AP" unfolding AP_def using a assms(2) by simp
  have "\<bar>a - n\<bar> \<le> n / 2 ^ 53" unfolding a_def using fl_error[of n] assms(1) by simp
  then have "\<bar>a - n\<bar> * p \<le> (n / 2 ^ 53) * p" using assms(2) by (rule mult_right_mono)
  moreover have "\<bar>a - n\<bar> * p = \<bar>AP - X\<bar>"
    unfolding AP_def X_def using assms(2) by (simp add: abs_mult flip: left_diff_distrib)
  moreover have "(n / 2 ^ 53) * p = X / 2 ^ 53" unfolding X_def by simp
  ultimately have f1: "\<bar>AP - X\<bar> \<le> X / 2 ^ 53" by simp
  have f2: "\<bar>fl AP - AP\<bar> \<le> AP / 2 ^ 53" using fl_error[of AP] AP by simp
  show "0 \<le> fl (fl n * p)" using fl_nonneg[OF AP] unfolding AP_def a_def .
  have pw: "(2::rat) ^ 53 = 9007199254740992" by simp
  have "\<bar>fl AP - X\<bar> \<le> 3 * X / 2 ^ 53" using f1 f2 X AP unfolding pw by linarith
  then show "\<bar>fl (fl n * p) - n * p\<bar> \<le> 3 * (n * p) / 2 ^ 53"
    unfolding AP_def a_def X_def .
qed

lemma calculate_cost_error:
  assumes "0 \<le> n" and "0 \<le> m" and "0 \<le> p" and "0 \<le> q"
  shows "\<bar>py_round (fl (fl (fl n * p) + fl (fl m * q))) 6 - (n * p + q * m)\<bar>
         \<le> 1 / 2000000 + (n * p + q * m + 1) / 2 ^ 50"
proof -
  define A where "A = fl (fl n * p)"
  define B where "B = fl (fl m * q)"
  define X where "X = n * p"
  define Y where "Y = m * q"
  define T where "T = fl (A + B)"
  have X: "0 \<le> X" and Y: "0 \<le> Y" unfolding X_def Y_def using assms by simp_all
  have A: "0 \<le> A" "\<bar>A - X\<bar> \<le> 3 * X / 2 ^ 53"
    unfolding A_def X_def using float_product_error[OF assms(1,3)] by simp_all
  have B: "0 \<le> B" "\<bar>B - Y\<bar> \<le> 3 * Y / 2 ^ 53"
    unfolding B_def Y_def using float_product_error[OF assms(2,4)] by simp_all
  define S where "S = X + Y"
  define AB where "AB = A + B"
  have pw: "(2::rat) ^ 53 = 9007199254740992" "(2::rat) ^ 50 = 1125899906842624"
    "(10::rat) ^ 6 = 1000000" by simp_all
  have S: "0 \<le> S" unfolding S_def using X Y by simp
  have AB: "0 \<le> AB" unfolding AB_def using A(1) B(1) by simp
  have T0: "0 \<le> T" unfolding T_def AB_def[symmetric] using AB by (rule fl_nonneg)
  have T1: "\<bar>T - AB\<bar> \<le> AB / 2 ^ 53"
    unfolding T_def AB_def[symmetric] using fl_error[of AB] AB by simp
  have AB1: "AB \<le> S + 3 * S / 2 ^ 53" "S - 3 * S / 2 ^ 53 \<le> AB"
    using A(2) B(2) S_def AB_def unfolding pw by linarith+
  have T': "T \<le> AB + AB / 2 ^ 53" "AB - AB / 2 ^ 53 \<le> T"
    using T1 unfolding pw by linarith+
  have T2: "T \<le> S + 5 * S / 2 ^ 53" "S - 5 * S / 2 ^ 53 \<le> T"
    using AB1 T' S unfolding pw by linarith+
  have R: "\<bar>py_round T 6 - T\<bar> \<le> 1 / (2 * 10 ^ 6) + (T + 1 / (2 * 10 ^ 6)) / 2 ^ 53"
    using T0 by (rule py_round_error)
  define h :: rat where "h = 1 / 2000000"
  have h: "0 \<le> h" "h \<le> 1" unfolding h_def by simp_all
  have R1: "\<bar>py_round T 6 - T\<bar> \<le> h + (T / 9007199254740992 + h / 9007199254740992)"
    using R unfolding pw h_def by (simp add: add_divide_distrib)
  have R': "py_round T 6 \<le> T + h + T / 9007199254740992 + h / 9007199254740992"
    "T - h - T / 9007199254740992 - h / 9007199254740992 \<le> py_round T 6"
    using R1 by linarith+
  have hi: "py_round T 6 - S \<le> h + S / 1125899906842624 + 1 / 1125899906842624"
    using R'(1) T2 S h unfolding pw by linarith
  have lo: "- (h + S / 1125899906842624 + 1 / 1125899906842624) \<le> py_round T 6 - S"
    using R'(2) T2 S h unfolding pw by linarith
  have "\<bar>py_round T 6 - S\<bar> \<le> h + S / 1125899906842624 + 1 / 1125899906842624"
    using hi lo by linarith
  then have "\<bar>py_round T 6 - (X + Y)\<bar> \<le> 1 / 2000000 + (X + Y + 1) / 2 ^ 50"
    unfolding S_def h_def pw by (simp add: add_divide_distrib)
  then show ?thesis
    unfolding T_def A_def B_def X_def Y_def by (simp add: mult.commute)
qed

subsection \<open>The cost contract\<close>

text \<open>
  Claim C7. For every provider, model and pair of token counts, \<^verbatim>\<open>calculate_cost\<close> is
  \<open>input_tokens * input_price + output_tokens * output_price\<close> rounded to 6 fractional
  digits, the two prices being what \<^verbatim>\<open>get_cost_per_token\<close> returns for the model, all
  in the arithmetic of floats: the result is the float sum of the two float products
  passed through \<^verbatim>\<open>round(_, 6)\<close>, it is the float nearest to a whole number of
  millionths, and for token counts that are not negative it differs from the exact
  sum of the exact products by at most half a millionth and the rounding error of the
  float operations, which is below \<open>(sum + 1) / 2\<^sup>5\<^sup>0\<close>.
\<close>

theorem calculate_cost_formula:
  "calculate_cost self input_tokens output_tokens model =
     py_round (float_add
                 (float_mul (float_of_int input_tokens) (input_cost (get_cost_per_token self model)))
                 (float_mul (float_of_int output_tokens) (output_cost (get_cost_per_token self model))))
              6
   \<and> (\<exists>k::int. calculate_cost self input_tokens output_tokens model = fl (of_int k / 10 ^ 6))
   \<and> (0 \<le> input_tokens \<and> 0 \<le> output_tokens \<longrightarrow>
        \<bar>calculate_cost self input_tokens output_tokens model
          - (of_int input_tokens * input_cost (get_cost_per_token self model)
             + output_cost (get_cost_per_token self model) * of_int output_tokens)\<bar>
        \<le> 1 / 2000000
           + (of_int input_tokens * input_cost (get_cost_per_token self model)
              + output_cost (get_cost_per_token self model) * of_int output_tokens + 1) / 2 ^ 50)"
proof -
  let ?c = "get_cost_per_token self model"
  have eq: "calculate_cost self input_tokens output_tokens model =
            py_round (float_add (float_mul (float_of_int input_tokens) (input_cost ?c))
                                (float_mul (float_of_int output_tokens) (output_cost ?c))) 6"
    by (simp add: calculate_cost_def Let_def)
  have digits: "\<exists>k::int. calculate_cost self input_tokens output_tokens model = fl (of_int k / 10 ^ 6)"
    unfolding eq py_round_def by blast
  have err: "\<bar>calculate_cost self input_tokens output_tokens model
              - (of_int input_tokens * input_cost ?c + output_cost ?c * of_int output_tokens)\<bar>
             \<le> 1 / 2000000
                + (of_int input_tokens * input_cost ?c + output_cost ?c * of_int output_tokens + 1) / 2 ^ 50"
    if "0 \<le> input_tokens" "0 \<le> output_tokens"
  proof -
    have p: "0 \<le> input_cost ?c" "0 \<le> output_cost ?c"
      using prices_nonneg[of self model] by simp_all
    have n: "(0::rat) \<le> of_int input_tokens" "(0::rat) \<le> of_int output_tokens"
      using that by simp_all
    from calculate_cost_error[OF n p] show ?thesis
      unfolding eq float_add_def float_mul_def float_of_int_def .
  qed
  show ?thesis using eq digits err by blast
qed

theorem calculate_cost_formula_witness:
  "calculate_cost AnthropicProvider 0 2 ''claude-3-haiku-20240307'' =
     py_round (float_add
                 (float_mul (float_of_int 0)
                    (input_cost (get_cost_per_token AnthropicProvider ''claude-3-haiku-20240307'')))
                 (float_mul (float_of_int 2)
                    (output_cost (get_cost_per_token AnthropicProvider ''claude-3-haiku-20240307''))))
              6
   \<and> (\<exists>k::int. calculate_cost AnthropicProvider 0 2 ''claude-3-haiku-20240307''
                  = fl (of_int k / 10 ^ 6))
   \<and> \<bar>calculate_cost AnthropicProvider 0 2 ''claude-3-haiku-20240307''
        - (of_int 0 * input_cost (get_cost_per_token AnthropicProvider ''claude-3-haiku-20240307'')
           + output_cost (get_cost_per_token AnthropicProvider ''claude-3-haiku-20240307'') * of_int 2)\<bar>
      \<le> 1 / 2000000
         + (of_int 0 * input_cost (get_cost_per_token AnthropicProvider ''claude-3-haiku-20240307'')
            + output_cost (get_cost_per_token AnthropicProvider ''claude-3-haiku-20240307'') * of_int 2
            + 1) / 2 ^ 50"
proof -
  have "(0::int) \<le> 0 \<and> (0::int) \<le> 2" by simp
  with calculate_cost_formula [of AnthropicProvider 0 2 "''claude-3-haiku-20240307''"]
  show ?thesis by blast
qed

text \<open>
  Claim C8. For every provider, every model (one that is no key of the pricing table
  gets the default entry of its provider) and all token counts, which are natural
  numbers, \<^verbatim>\<open>calculate_cost\<close> is not negative and is monotonically non-decreasing in
  each token count separately. It is a function of its arguments and reads no state,
  so equal inputs give equal outputs.
\<close>

theorem calculate_cost_nonneg_mono:
  "0 \<le> calculate_cost self (int n_in) (int n_out) model
   \<and> (n_in \<le> n_in' \<longrightarrow>
        calculate_cost self (int n_in) (int n_out) model
          \<le> calculate_cost self (int n_in') (int n_out) model)
   \<and> (n_out \<le> n_out' \<longrightarrow>
        calculate_cost self (int n_in) (int n_out) model
          \<le> calculate_cost self (int n_in) (int n_out') model)
   \<and> (model \<notin> set (map fst anthropic_pricing) \<longrightarrow>
        get_cost_per_token AnthropicProvider model =
          \<lparr>input_cost = float_div 3 1000000, output_cost = float_div 15 1000000\<rparr>)
   \<and> (model \<notin> set (map fst openai_pricing) \<longrightarrow>
        get_cost_per_token OpenAIProvider model =
          \<lparr>input_cost = float_div 10 1000000, output_cost = float_div 30 1000000\<rparr>)"
proof -
  let ?c = "get_cost_per_token self model"
  have p: "0 \<le> input_cost ?c" "0 \<le> output_cost ?c"
    using prices_nonneg[of self model] by simp_all
  have prod: "0 \<le> fl (fl (of_int (int k)) * x)" if "0 \<le> x" for k :: nat and x :: rat
    by (intro fl_nonneg mult_nonneg_nonneg that) simp
  have prod_mono: "fl (fl (of_int (int k)) * x) \<le> fl (fl (of_int (int k')) * x)"
    if "0 \<le> x" "k \<le> k'" for k k' :: nat and x :: rat
  proof -
    have "fl (of_int (int k)) \<le> fl (of_int (int k'))" using that(2) by (intro fl_mono) simp_all
    then have "fl (of_int (int k)) * x \<le> fl (of_int (int k')) * x"
      using that(1) by (rule mult_right_mono)
    moreover have "0 \<le> fl (of_int (int k)) * x"
      by (intro mult_nonneg_nonneg fl_nonneg that(1)) simp
    ultimately show ?thesis by (intro fl_mono)
  qed
  have total: "0 \<le> fl (fl (of_int (int k)) * x) + fl (fl (of_int (int l)) * y)"
    if "0 \<le> x" "0 \<le> y" for k l :: nat and x y :: rat
    using prod[OF that(1), of k] prod[OF that(2), of l] by simp
  have nonneg: "0 \<le> calculate_cost self (int n_in) (int n_out) model"
    unfolding calculate_cost_def Let_def float_add_def float_mul_def float_of_int_def
    by (intro py_round_nonneg fl_nonneg total p)
  have m1: "calculate_cost self (int n_in) (int n_out) model
              \<le> calculate_cost self (int n_in') (int n_out) model" if "n_in \<le> n_in'"
    unfolding calculate_cost_def Let_def float_add_def float_mul_def float_of_int_def
    by (intro py_round_mono fl_mono fl_nonneg total p add_right_mono prod_mono that)
  have m2: "calculate_cost self (int n_in) (int n_out) model
              \<le> calculate_cost self (int n_in) (int n_out') model" if "n_out \<le> n_out'"
    unfolding calculate_cost_def Let_def float_add_def float_mul_def float_of_int_def
    by (intro py_round_mono fl_mono fl_nonneg total p add_left_mono prod_mono that)
  show ?thesis
    using nonneg m1 m2 unknown_model_default_pricing[of model] by blast
qed

theorem calculate_cost_nonneg_mono_witness:
  "0 \<le> calculate_cost OpenAIProvider (int 1000) (int 500) ''no-such-model''
   \<and> calculate_cost OpenAIProvider (int 1000) (int 500) ''no-such-model''
       \<le> calculate_cost OpenAIProvider (int 2000) (int 500) ''no-such-model''
   \<and> calculate_cost OpenAIProvider (int 1000) (int 500) ''no-such-model''
       \<le> calculate_cost OpenAIProvider (int 1000) (int 600) ''no-such-model''
   \<and> get_cost_per_token AnthropicProvider ''no-such-model'' =
       \<lparr>input_cost = float_div 3 1000000, output_cost = float_div 15 1000000\<rparr>
   \<and> get_cost_per_token OpenAIProvider ''no-such-model'' =
       \<lparr>input_cost = float_div 10 1000000, output_cost = float_div 30 1000000\<rparr>"
proof -
  have "(1000::nat) \<le> 2000" "(500::nat) \<le> 600"
    "''no-such-model'' \<notin> set (map fst anthropic_pricing)"
    "''no-such-model'' \<notin> set (map fst openai_pricing)"
    by (simp_all add: anthropic_pricing_def openai_pricing_def)
  with calculate_cost_nonneg_mono [of OpenAIProvider 1000 500 "''no-such-model''" 2000 600]
  show ?thesis by blast
qed

section \<open>Requests, responses and validation (\<^verbatim>\<open>base_provider.py\<close>)\<close>

datatype LLMProviderType =
  OLLAMA | MISTRAL | GEMINI | ANTHROPIC | OPENAI | AWS_BEDROCK | AZURE_OPENAI | VERTEX_AI

record LLMRequest =
  prompt :: string
  system_message :: "string option"
  temperature :: rat
  max_tokens :: int
  top_p :: rat
  stream :: bool
  metadata :: kwargs
  model_override :: "string option"
  timeout :: "int option"

text \<open>
  The \<^verbatim>\<open>provider\<close> of a response is declared \<^verbatim>\<open>str\<close>; the Gemini provider stores the
  string \<^verbatim>\<open>"gemini"\<close>, the other two pass the enumeration value \<^verbatim>\<open>self.provider_type\<close>.
  A value of the \<^verbatim>\<open>metadata\<close> dictionary is a plain value or the vendor's usage block.
\<close>

datatype provider_ref = ProviderName string | ProviderEnum LLMProviderType

datatype meta_value = MetaVal pyval | MetaUsage "(string \<times> int) list"

record LLMResponse =
  content :: string
  model :: string
  provider :: provider_ref
  tokens_used :: int
  cost :: rat
  latency_ms :: rat
  resp_metadata :: "(string \<times> meta_value) list"
  finish_reason :: "string option"
  error :: "string option"

text \<open>
  The constructor the \<^verbatim>\<open>@dataclass\<close> decorator generates takes the nine fields as
  keywords; the first six have no default. \<open>new_LLMResponse ks r\<close> is the call
  \<^verbatim>\<open>LLMResponse(k1=..., k2=..., ...)\<close> with the keywords \<open>ks\<close>, \<open>r\<close> holding the values
  given for the fields (and the defaults of the fields not given).
\<close>

definition LLMResponse_fields :: "string list" where
  "LLMResponse_fields =
     [''content'', ''model'', ''provider'', ''tokens_used'', ''cost'', ''latency_ms'',
      ''metadata'', ''finish_reason'', ''error'']"

definition new_LLMResponse :: "string list \<Rightarrow> LLMResponse \<Rightarrow> py_exception + LLMResponse" where
  "new_LLMResponse ks r =
     (case filter (\<lambda>k. k \<notin> set LLMResponse_fields) ks of
        k # _ \<Rightarrow> Inl (TypeError (''__init__() got an unexpected keyword argument '' @ k))
      | [] \<Rightarrow>
          (case filter (\<lambda>k. k \<notin> set ks) (take 6 LLMResponse_fields) of
             k # _ \<Rightarrow> Inl (TypeError (''__init__() missing required argument '' @ k))
           | [] \<Rightarrow> Inr r))"

text \<open>\<^verbatim>\<open>BaseLLMProvider.validate_request\<close>.\<close>

definition validate_request :: "LLMRequest \<Rightarrow> py_exception + bool" where
  "validate_request request =
     (if prompt request = [] then Inl (ValueError ''Prompt cannot be empty'')
      else if temperature request < 0 \<or> temperature request > 2
        then Inl (ValueError ''Temperature must be between 0 and 2'')
      else if max_tokens request < 1 then Inl (ValueError ''Max tokens must be at least 1'')
      else Inr True)"

text \<open>
  \<^verbatim>\<open>request.model\<close>, as the Anthropic and the OpenAI provider read it. The dataclass
  \<^verbatim>\<open>LLMRequest\<close> has the fields \<^verbatim>\<open>prompt\<close>, \<^verbatim>\<open>system_message\<close>, \<^verbatim>\<open>temperature\<close>,
  \<^verbatim>\<open>max_tokens\<close>, \<^verbatim>\<open>top_p\<close>, \<^verbatim>\<open>stream\<close>, \<^verbatim>\<open>metadata\<close>, \<^verbatim>\<open>model_override\<close> and \<^verbatim>\<open>timeout\<close>
  and no attribute \<^verbatim>\<open>model\<close>: reading it raises \<^verbatim>\<open>AttributeError\<close>, whatever the
  request. (The Gemini provider reads \<^verbatim>\<open>request.model_override\<close>.)
\<close>

definition request_model :: "LLMRequest \<Rightarrow> py_exception + string option" where
  "request_model request = Inl (AttributeError ''LLMRequest object has no attribute model'')"

text \<open>\<^verbatim>\<open>x or y\<close> for an optional string \<open>x\<close>: \<^verbatim>\<open>None\<close> and the empty string are false.\<close>

definition or_else :: "string option \<Rightarrow> string \<Rightarrow> string" where
  "or_else x y = (case x of None \<Rightarrow> y | Some s \<Rightarrow> if s = [] then y else s)"

section \<open>The vendor, the clock and what a call does to them\<close>

text \<open>
  A call of \<^verbatim>\<open>generate\<close> talks to the vendor over HTTP (or through the vendor's SDK),
  reads the clock of the event loop and sleeps. The vendor is a script: the outcome
  of the \<open>k\<close>-th POST and the time it takes. An outcome is a response with its
  status, its body as text and as parsed JSON (\<open>None\<close> when the body is no JSON), a
  timeout (\<^verbatim>\<open>asyncio.TimeoutError\<close>) or another error of the HTTP client. The JSON of
  a 200 response is modelled at the schema the provider reads: a key that may be
  absent is an \<open>option\<close>.
\<close>

datatype 'd http_outcome =
    HttpResponse int string "'d option"
  | HttpTimeout
  | HttpFailure string

record 'd vendor =
  post :: "nat \<Rightarrow> 'd http_outcome"
  post_seconds :: "nat \<Rightarrow> rat"

text \<open>
  The world of a call: how many POSTs and SDK calls were made, the sleeps taken (in
  order), the clock in seconds, and the level from which the loggers of the provider
  modules are enabled (\<^verbatim>\<open>logger.isEnabledFor(level)\<close> is \<open>log_level \<le> level\<close>). The
  loggers are \<^verbatim>\<open>logging.getLogger(__name__)\<close> and inherit the level of the root logger,
  \<^verbatim>\<open>WARNING\<close> unless the application configures logging; \<^verbatim>\<open>logging.disable\<close> raises the
  threshold.
\<close>

record world =
  http_calls :: nat
  sdk_calls :: nat
  sleeps :: "rat list"
  clock :: rat
  log_level :: int

definition http_post :: "'d vendor \<Rightarrow> world \<Rightarrow> 'd http_outcome \<times> world" where
  "http_post v w =
     (post v (http_calls w),
      w\<lparr>http_calls := Suc (http_calls w), clock := clock w + post_seconds v (http_calls w)\<rparr>)"

definition sleep :: "rat \<Rightarrow> world \<Rightarrow> world" where
  "sleep t w = w\<lparr>sleeps := sleeps w @ [t], clock := clock w + t\<rparr>"

subsection \<open>Logger calls with keyword arguments\<close>

text \<open>The levels of \<^verbatim>\<open>logging\<close>.\<close>

definition INFO :: int where "INFO = 20"

definition WARNING :: int where "WARNING = 30"

definition ERROR :: int where "ERROR = 40"

text \<open>
  \<^verbatim>\<open>logger.info(msg, k1=..., k2=...)\<close>, \<^verbatim>\<open>logger.warning\<close> and \<^verbatim>\<open>logger.error\<close> of the
  standard library: when the level is enabled the call goes on to
  \<^verbatim>\<open>self._log(level, msg, args, **kwargs)\<close>, whose only keyword parameters are
  \<^verbatim>\<open>exc_info\<close>, \<^verbatim>\<open>extra\<close>, \<^verbatim>\<open>stack_info\<close> and \<^verbatim>\<open>stacklevel\<close>; any other keyword raises
  \<^verbatim>\<open>TypeError\<close>, naming the first one. When the level is not enabled the call returns
  at once. \<open>log_call level keys threshold\<close> is what a call at \<open>level\<close> with the
  keywords \<open>keys\<close> raises, if it raises, when the loggers are enabled from \<open>threshold\<close>
  on; \<open>log_kw\<close> reads the threshold from the world.
\<close>

definition logger_kwargs :: "string list" where
  "logger_kwargs = [''exc_info'', ''extra'', ''stack_info'', ''stacklevel'']"

definition log_call :: "int \<Rightarrow> string list \<Rightarrow> int \<Rightarrow> py_exception option" where
  "log_call level keys threshold =
     (if threshold \<le> level then
        (case filter (\<lambda>k. k \<notin> set logger_kwargs) keys of
           [] \<Rightarrow> None
         | k # _ \<Rightarrow> Some (TypeError (''Logger._log() got an unexpected keyword argument '' @ k)))
      else None)"

definition log_kw :: "int \<Rightarrow> string list \<Rightarrow> world \<Rightarrow> py_exception option" where
  "log_kw level keys w = log_call level keys (log_level w)"

section \<open>\<^verbatim>\<open>AnthropicProvider\<close> and \<^verbatim>\<open>OpenAIProvider\<close>\<close>

text \<open>
  Of the configuration, \<^verbatim>\<open>generate\<close> reads \<^verbatim>\<open>default_model\<close> only (the timeout is the
  vendor script's business, and \<^verbatim>\<open>max_retries\<close> is stored but never read).
\<close>

record api_provider =
  config_default_model :: "string option"

text \<open>\<^verbatim>\<open>self.config.get('default_model', dflt)\<close>.\<close>

definition config_get :: "string option \<Rightarrow> string \<Rightarrow> string" where
  "config_get x dflt = (case x of None \<Rightarrow> dflt | Some s \<Rightarrow> s)"

subsection \<open>Anthropic\<close>

record anthropic_block =
  block_type :: "string option"
  block_text :: "string option"

record anthropic_data =
  a_content :: "anthropic_block list option"
  a_usage :: "(string \<times> int) list option"
  a_stop_reason :: "string option"

definition usage_get :: "(string \<times> int) list option \<Rightarrow> string \<Rightarrow> int \<Rightarrow> int" where
  "usage_get usage k dflt = (case usage of None \<Rightarrow> dflt | Some u \<Rightarrow> dict_get u k dflt)"

definition usage_meta :: "(string \<times> int) list option \<Rightarrow> meta_value" where
  "usage_meta usage = (case usage of None \<Rightarrow> MetaVal PNone | Some u \<Rightarrow> MetaUsage u)"

definition opt_str_meta :: "string option \<Rightarrow> meta_value" where
  "opt_str_meta s = MetaVal (case s of None \<Rightarrow> PNone | Some t \<Rightarrow> PStr t)"

text \<open>
  The branch \<^verbatim>\<open>response.status == 200\<close> of \<^verbatim>\<open>AnthropicProvider.generate\<close>, from
  \<^verbatim>\<open>data = await response.json()\<close> on: the \<^verbatim>\<open>logger.info\<close> call comes before the
  response is constructed.
\<close>

definition anthropic_success ::
  "string \<Rightarrow> rat \<Rightarrow> rat \<Rightarrow> anthropic_data \<Rightarrow> world \<Rightarrow> py_exception + LLMResponse" where
  "anthropic_success model_id start_time end_time data w =
     (let latency_ms = (end_time - start_time) * 1000;
          text =
            concat (map (\<lambda>b. if block_type b = Some ''text''
                              then (case block_text b of None \<Rightarrow> [] | Some t \<Rightarrow> t) else [])
                        (case a_content data of None \<Rightarrow> [] | Some bs \<Rightarrow> bs));
          input_tokens = usage_get (a_usage data) ''input_tokens'' 0;
          output_tokens = usage_get (a_usage data) ''output_tokens'' 0;
          total_tokens = input_tokens + output_tokens;
          c = calculate_cost AnthropicProvider input_tokens output_tokens model_id
      in case log_kw INFO [''model'', ''tokens'', ''cost'', ''latency_ms''] w of
           Some e \<Rightarrow> Inl e
         | None \<Rightarrow>
             new_LLMResponse
               [''content'', ''model'', ''provider'', ''input_tokens'', ''output_tokens'',
                ''tokens_used'', ''cost'', ''latency_ms'', ''metadata'']
               \<lparr>content = text, model = model_id, provider = ProviderEnum ANTHROPIC,
                tokens_used = total_tokens, cost = c, latency_ms = latency_ms,
                resp_metadata = [(''stop_reason'', opt_str_meta (a_stop_reason data)),
                                 (''usage'', usage_meta (a_usage data))],
                finish_reason = None, error = None\<rparr>)"

text \<open>
  The two handlers that close the \<^verbatim>\<open>try\<close> of \<^verbatim>\<open>generate\<close>, the same in both providers
  but for the name in the message: \<^verbatim>\<open>except asyncio.TimeoutError\<close> logs and raises a plain
  \<^verbatim>\<open>Exception\<close>; \<^verbatim>\<open>except Exception as e\<close> logs and re-raises what it caught. Both log
  with keyword arguments, so with the level \<^verbatim>\<open>ERROR\<close> enabled the logger call raises
  first. \<open>tried\<close> is what the \<^verbatim>\<open>try\<close> block returned or raised.
\<close>

definition api_handlers ::
  "string \<Rightarrow> string \<Rightarrow> world \<Rightarrow> py_exception + LLMResponse \<Rightarrow> py_exception + LLMResponse" where
  "api_handlers name model_id w tried =
     (case tried of
        Inr response \<Rightarrow> Inr response
      | Inl AsyncioTimeoutError \<Rightarrow>
          (case log_kw ERROR [''model''] w of
             Some e' \<Rightarrow> Inl e'
           | None \<Rightarrow> Inl (Exception (name @ '' API timeout for model '' @ model_id)))
      | Inl e \<Rightarrow>
          (case log_kw ERROR [''error'', ''model''] w of
             Some e' \<Rightarrow> Inl e'
           | None \<Rightarrow> Inl e))"

text \<open>
  \<^verbatim>\<open>AnthropicProvider.generate\<close>. Inside the \<^verbatim>\<open>try\<close>, a status other than 200 is logged
  (with keyword arguments) and raised as a plain \<^verbatim>\<open>Exception\<close>, which the second
  handler catches.
\<close>

definition anthropic_generate ::
  "api_provider \<Rightarrow> anthropic_data vendor \<Rightarrow> LLMRequest \<Rightarrow> world \<Rightarrow> (py_exception + LLMResponse) \<times> world" where
  "anthropic_generate self v request w =
     (case validate_request request of
        Inl e \<Rightarrow> (Inl e, w)
      | Inr _ \<Rightarrow>
          (case request_model request of
             Inl e \<Rightarrow> (Inl e, w)
           | Inr m \<Rightarrow>
               (let model_id = or_else m (config_get (config_default_model self) ''claude-3-5-sonnet-20241022'');
                    start_time = clock w;
                    (outcome, w1) = http_post v w;
                    tried =
                      (case outcome of
                         HttpResponse status body js \<Rightarrow>
                           if status = 200 then
                             (case js of
                                None \<Rightarrow> Inl (TransportError ''response body is not JSON'')
                              | Some data \<Rightarrow> anthropic_success model_id start_time (clock w1) data w1)
                           else (case log_kw ERROR [''status'', ''error''] w1 of
                                   Some e \<Rightarrow> Inl e
                                 | None \<Rightarrow>
                                     Inl (Exception (''Claude API error '' @ str_int status @ '': '' @ body)))
                       | HttpTimeout \<Rightarrow> Inl AsyncioTimeoutError
                       | HttpFailure s \<Rightarrow> Inl (TransportError s))
                in (api_handlers ''Claude'' model_id w1 tried, w1))))"

subsection \<open>OpenAI\<close>

text \<open>
  \<^verbatim>\<open>data['choices'][0]['message']['content']\<close> raises \<^verbatim>\<open>KeyError\<close> on a missing key and
  \<^verbatim>\<open>IndexError\<close> on an empty list. In \<open>choice_message\<close>, \<open>None\<close> is a choice without
  \<^verbatim>\<open>message\<close> and \<open>Some None\<close> a message without \<^verbatim>\<open>content\<close>.
\<close>

record openai_choice =
  choice_message :: "string option option"
  choice_finish_reason :: "string option"

record openai_data =
  o_choices :: "openai_choice list option"
  o_usage :: "(string \<times> int) list option"

definition openai_content :: "openai_data \<Rightarrow> py_exception + string" where
  "openai_content data =
     (case o_choices data of
        None \<Rightarrow> Inl (KeyError ''choices'')
      | Some [] \<Rightarrow> Inl (IndexError ''list index out of range'')
      | Some (c # _) \<Rightarrow>
          (case choice_message c of
             None \<Rightarrow> Inl (KeyError ''message'')
           | Some None \<Rightarrow> Inl (KeyError ''content'')
           | Some (Some s) \<Rightarrow> Inr s))"

definition openai_success ::
  "string \<Rightarrow> rat \<Rightarrow> rat \<Rightarrow> openai_data \<Rightarrow> world \<Rightarrow> py_exception + LLMResponse" where
  "openai_success model_id start_time end_time data w =
     (let latency_ms = (end_time - start_time) * 1000
      in case openai_content data of
           Inl e \<Rightarrow> Inl e
         | Inr text \<Rightarrow>
             (let input_tokens = usage_get (o_usage data) ''prompt_tokens'' 0;
                  output_tokens = usage_get (o_usage data) ''completion_tokens'' 0;
                  total_tokens = usage_get (o_usage data) ''total_tokens'' (input_tokens + output_tokens);
                  c = calculate_cost OpenAIProvider input_tokens output_tokens model_id
              in case log_kw INFO [''model'', ''tokens'', ''cost'', ''latency_ms''] w of
                   Some e \<Rightarrow> Inl e
                 | None \<Rightarrow>
                     new_LLMResponse
                       [''content'', ''model'', ''provider'', ''input_tokens'', ''output_tokens'',
                        ''tokens_used'', ''cost'', ''latency_ms'', ''metadata'']
                       \<lparr>content = text, model = model_id, provider = ProviderEnum OPENAI,
                        tokens_used = total_tokens, cost = c, latency_ms = latency_ms,
                        resp_metadata =
                          [(''finish_reason'',
                            opt_str_meta (case o_choices data of
                                            Some (ch # _) \<Rightarrow> choice_finish_reason ch | _ \<Rightarrow> None)),
                           (''usage'', usage_meta (o_usage data))],
                        finish_reason = None, error = None\<rparr>))"

text \<open>\<^verbatim>\<open>OpenAIProvider.generate\<close>, built like the one of the Anthropic provider.\<close>

definition openai_generate ::
  "api_provider \<Rightarrow> openai_data vendor \<Rightarrow> LLMRequest \<Rightarrow> world \<Rightarrow> (py_exception + LLMResponse) \<times> world" where
  "openai_generate self v request w =
     (case validate_request request of
        Inl e \<Rightarrow> (Inl e, w)
      | Inr _ \<Rightarrow>
          (case request_model request of
             Inl e \<Rightarrow> (Inl e, w)
           | Inr m \<Rightarrow>
               (let model_id = or_else m (config_get (config_default_model self) ''gpt-4-turbo-preview'');
                    start_time = clock w;
                    (outcome, w1) = http_post v w;
                    tried =
                      (case outcome of
                         HttpResponse status body js \<Rightarrow>
                           if status = 200 then
                             (case js of
                                None \<Rightarrow> Inl (TransportError ''response body is not JSON'')
                              | Some data \<Rightarrow> openai_success model_id start_time (clock w1) data w1)
                           else (case log_kw ERROR [''status'', ''error''] w1 of
                                   Some e \<Rightarrow> Inl e
                                 | None \<Rightarrow>
                                     Inl (Exception (''OpenAI API error '' @ str_int status @ '': '' @ body)))
                       | HttpTimeout \<Rightarrow> Inl AsyncioTimeoutError
                       | HttpFailure s \<Rightarrow> Inl (TransportError s))
                in (api_handlers ''OpenAI'' model_id w1 tried, w1))))"

section \<open>\<^verbatim>\<open>GeminiProvider\<close>\<close>

text \<open>What \<^verbatim>\<open>__init__\<close> stores and \<^verbatim>\<open>generate\<close> reads; \<open>genai_client\<close> says whether the
  SDK client exists (\<^verbatim>\<open>self.genai_client is not None\<close>).\<close>

record gemini_provider =
  default_model :: string
  thinking_mode :: bool
  request_timeout :: int
  max_retries :: int
  genai_client :: bool

text \<open>
  The JSON of a 200 response. In \<open>cand_parts\<close>, \<open>None\<close> is a candidate without
  \<^verbatim>\<open>content\<close> or whose content has no \<^verbatim>\<open>parts\<close> (the code treats both alike); a part is
  its \<^verbatim>\<open>text\<close>, if it has one.
\<close>

record gemini_candidate =
  cand_parts :: "string option list option"
  cand_finishReason :: "string option"

record gemini_data =
  candidates :: "gemini_candidate list option"
  usageMetadata :: "(string \<times> int) list option"

text \<open>
  From \<^verbatim>\<open>result = await response.json()\<close> to the \<^verbatim>\<open>return\<close>. The local variable
  \<^verbatim>\<open>candidate\<close> is assigned only when the response has a candidate; it keeps its
  value from one pass of the retry loop to the next, so the model carries its binding
  (\<open>None\<close>: not assigned yet). Reading it unassigned, when the metadata is built,
  raises \<^verbatim>\<open>UnboundLocalError\<close>; an empty \<^verbatim>\<open>parts\<close> list raises \<^verbatim>\<open>IndexError\<close>.
\<close>

definition assign_candidate :: "gemini_candidate option \<Rightarrow> gemini_data \<Rightarrow> gemini_candidate option" where
  "assign_candidate bound result =
     (case candidates result of Some (candidate # _) \<Rightarrow> Some candidate | _ \<Rightarrow> bound)"

definition gemini_text :: "gemini_data \<Rightarrow> py_exception + string" where
  "gemini_text result =
     (case candidates result of
        Some (candidate # _) \<Rightarrow>
          (case cand_parts candidate of
             Some [] \<Rightarrow> Inl (IndexError ''list index out of range'')
           | Some (part # _) \<Rightarrow> Inr (case part of None \<Rightarrow> [] | Some t \<Rightarrow> t)
           | None \<Rightarrow> Inr [])
      | _ \<Rightarrow> Inr [])"

definition gemini_success ::
  "gemini_provider \<Rightarrow> string \<Rightarrow> rat \<Rightarrow> rat \<Rightarrow> gemini_candidate option \<Rightarrow> gemini_data
     \<Rightarrow> py_exception + LLMResponse" where
  "gemini_success self model_id start_time now bound result =
     (case gemini_text result of
        Inl e \<Rightarrow> Inl e
      | Inr generated_text \<Rightarrow>
          (let latency = (now - start_time) * 1000;
               prompt_tokens = usage_get (usageMetadata result) ''promptTokenCount'' 0;
               candidates_tokens = usage_get (usageMetadata result) ''candidatesTokenCount'' 0;
               total_tokens =
                 usage_get (usageMetadata result) ''totalTokenCount'' (prompt_tokens + candidates_tokens);
               c = calculate_cost GeminiProvider prompt_tokens candidates_tokens model_id
           in case assign_candidate bound result of
                Some candidate \<Rightarrow>
                  new_LLMResponse
                    [''content'', ''model'', ''provider'', ''tokens_used'', ''cost'', ''latency_ms'',
                     ''metadata'']
                    \<lparr>content = generated_text, model = model_id, provider = ProviderName ''gemini'',
                     tokens_used = total_tokens, cost = c, latency_ms = latency,
                     resp_metadata =
                       [(''prompt_tokens'', MetaVal (PInt prompt_tokens)),
                        (''completion_tokens'', MetaVal (PInt candidates_tokens)),
                        (''thinking_mode'', MetaVal (PBool (thinking_mode self))),
                        (''finish_reason'',
                         MetaVal (PStr (case cand_finishReason candidate of
                                          None \<Rightarrow> ''STOP'' | Some r \<Rightarrow> r)))],
                     finish_reason = None, error = None\<rparr>
              | None \<Rightarrow> Inl (UnboundLocalError ''candidate'')))"

text \<open>\<^verbatim>\<open>error_type\<close>, as the branch for a status other than 200 works it out.\<close>

definition gemini_error_type :: "int \<Rightarrow> string" where
  "gemini_error_type status =
     (if status = 429 then ''rate_limit''
      else if status = 401 then ''authentication''
      else if status = 400 then ''bad_request''
      else if status \<ge> 500 then ''server_error''
      else ''unknown'')"

text \<open>
  One pass through \<^verbatim>\<open>for attempt in range(self.max_retries)\<close> has three ways out:
  it returns a response, it sleeps and goes on to the next attempt (\<^verbatim>\<open>continue\<close>), or
  it raises. In the model \<open>Inr (Some response)\<close> is the return, \<open>Inr None\<close> the
  \<^verbatim>\<open>continue\<close> and \<open>Inl e\<close> the exception.

  \<open>gemini_try\<close> is the \<^verbatim>\<open>try\<close> block, given the outcome of the POST and the world after
  it. A status other than 200 is logged with \<^verbatim>\<open>logger.error(..., status=..., ...)\<close>; then,
  if \<^verbatim>\<open>attempt < self.max_retries - 1\<close>, \<^verbatim>\<open>logger.info(..., attempt=...)\<close>, sleep and
  \<^verbatim>\<open>continue\<close>, otherwise a plain \<^verbatim>\<open>Exception\<close> with the status and the first 500
  characters of the body is raised, still inside the \<^verbatim>\<open>try\<close>. A timeout of the POST is
  \<^verbatim>\<open>asyncio.TimeoutError\<close>.
\<close>

definition gemini_try ::
  "gemini_provider \<Rightarrow> string \<Rightarrow> rat \<Rightarrow> gemini_candidate option \<Rightarrow> nat \<Rightarrow> gemini_data http_outcome
     \<Rightarrow> world \<Rightarrow> py_exception + LLMResponse option" where
  "gemini_try self model_id start_time bound attempt outcome w =
     (case outcome of
        HttpResponse status body js \<Rightarrow>
          if status \<noteq> 200 then
            (case log_kw ERROR [''status'', ''error_type'', ''error_detail'', ''model'', ''will_retry''] w of
               Some e \<Rightarrow> Inl e
             | None \<Rightarrow>
                 if int attempt < max_retries self - 1
                 then (case log_kw INFO [''attempt''] w of Some e \<Rightarrow> Inl e | None \<Rightarrow> Inr None)
                 else Inl (Exception (''Gemini API '' @ gemini_error_type status @ '' (HTTP ''
                                      @ str_int status @ ''): '' @ take 500 body)))
          else (case js of
                  None \<Rightarrow> Inl (TransportError ''response body is not JSON'')
                | Some result \<Rightarrow>
                    map_sum id Some (gemini_success self model_id start_time (clock w) bound result))
      | HttpTimeout \<Rightarrow> Inl AsyncioTimeoutError
      | HttpFailure s \<Rightarrow> Inl (TransportError s))"

text \<open>
  The two handlers, for an exception \<open>e\<close> raised inside the \<^verbatim>\<open>try\<close>.
  \<^verbatim>\<open>except asyncio.TimeoutError\<close> logs with \<^verbatim>\<open>logger.warning(..., timeout=..., ...)\<close> and
  then retries or raises a plain \<^verbatim>\<open>Exception\<close>; \<^verbatim>\<open>except Exception as e\<close> logs with
  \<^verbatim>\<open>logger.error(..., error=str(e), ...)\<close> and then retries or re-raises \<open>e\<close>. An
  exception raised by a logger call inside a handler leaves the loop.
\<close>

definition gemini_except ::
  "gemini_provider \<Rightarrow> nat \<Rightarrow> world \<Rightarrow> py_exception \<Rightarrow> py_exception + LLMResponse option" where
  "gemini_except self attempt w e =
     (case e of
        AsyncioTimeoutError \<Rightarrow>
          (case log_kw WARNING [''timeout'', ''model'', ''will_retry''] w of
             Some e' \<Rightarrow> Inl e'
           | None \<Rightarrow>
               if int attempt < max_retries self - 1
               then (case log_kw INFO [''attempt''] w of Some e' \<Rightarrow> Inl e' | None \<Rightarrow> Inr None)
               else Inl (Exception (''Gemini API timeout after '' @ str_int (max_retries self)
                                    @ '' attempts ('' @ str_int (request_timeout self) @ ''s each)'')))
      | _ \<Rightarrow>
          (case log_kw ERROR [''error'', ''error_type'', ''model'', ''will_retry''] w of
             Some e' \<Rightarrow> Inl e'
           | None \<Rightarrow>
               if int attempt < max_retries self - 1
               then (case log_kw INFO [''attempt''] w of Some e' \<Rightarrow> Inl e' | None \<Rightarrow> Inr None)
               else Inl e))"

definition gemini_attempt ::
  "gemini_provider \<Rightarrow> string \<Rightarrow> rat \<Rightarrow> gemini_candidate option \<Rightarrow> nat \<Rightarrow> gemini_data http_outcome
     \<Rightarrow> world \<Rightarrow> py_exception + LLMResponse option" where
  "gemini_attempt self model_id start_time bound attempt outcome w =
     (case gemini_try self model_id start_time bound attempt outcome w of
        Inl e \<Rightarrow> gemini_except self attempt w e
      | Inr x \<Rightarrow> Inr x)"

text \<open>The binding of \<^verbatim>\<open>candidate\<close> after the pass.\<close>

definition candidate_after :: "gemini_candidate option \<Rightarrow> gemini_data http_outcome \<Rightarrow> gemini_candidate option" where
  "candidate_after bound outcome =
     (case outcome of
        HttpResponse status body (Some result) \<Rightarrow>
          if status = 200 then assign_candidate bound result else bound
      | _ \<Rightarrow> bound)"

text \<open>
  The loop: a \<^verbatim>\<open>continue\<close> sleeps \<^verbatim>\<open>2 ** attempt\<close> seconds first. When
  \<^verbatim>\<open>range(self.max_retries)\<close> is used up without a return (it is empty for
  \<^verbatim>\<open>max_retries\<close> below 1) the method returns \<^verbatim>\<open>None\<close>.
\<close>

function gemini_rest_loop ::
  "gemini_provider \<Rightarrow> gemini_data vendor \<Rightarrow> string \<Rightarrow> rat \<Rightarrow> gemini_candidate option \<Rightarrow> nat \<Rightarrow> world
     \<Rightarrow> (py_exception + LLMResponse option) \<times> world" where
  "gemini_rest_loop self v model_id start_time bound attempt w =
     (if int attempt < max_retries self then
        (case gemini_attempt self model_id start_time bound attempt
                (fst (http_post v w)) (snd (http_post v w)) of
           Inr (Some response) \<Rightarrow> (Inr (Some response), snd (http_post v w))
         | Inr None \<Rightarrow>
             gemini_rest_loop self v model_id start_time
               (candidate_after bound (fst (http_post v w))) (Suc attempt)
               (sleep (2 ^ attempt) (snd (http_post v w)))
         | Inl e \<Rightarrow> (Inl e, snd (http_post v w)))
      else (Inr None, w))"
  by pat_completeness auto
termination
  by (relation "measure (\<lambda>(self, v, model_id, start_time, bound, attempt, w).
                          nat (max_retries self - int attempt))") auto

declare gemini_rest_loop.simps [simp del]

subsection \<open>The SDK path\<close>

text \<open>
  What \<^verbatim>\<open>self.genai_client.models.generate_content\<close> gives back: an error of the SDK,
  or a response object; \<open>None\<close> is an attribute the object does not have.
\<close>

record sdk_response =
  sdk_text :: "string option"
  sdk_usage_metadata :: "(string \<times> int) list option"

record sdk =
  generate_content :: "nat \<Rightarrow> string + sdk_response"
  sdk_seconds :: "nat \<Rightarrow> rat"

text \<open>
  \<^verbatim>\<open>_generate_with_sdk\<close>: the whole body is a \<^verbatim>\<open>try\<close> whose handler logs with
  \<^verbatim>\<open>logger.error(..., model=..., thinking_budget=...)\<close> and re-raises. Inside,
  \<^verbatim>\<open>logger.info\<close> is called with keyword arguments before the SDK call and again
  before the response is constructed.
\<close>

definition gemini_sdk_try ::
  "sdk \<Rightarrow> string \<Rightarrow> pyval \<Rightarrow> world \<Rightarrow> (py_exception + LLMResponse option) \<times> world" where
  "gemini_sdk_try s model_id thinking_budget w =
     (case log_kw INFO [''model'', ''thinking_budget''] w of
        Some e \<Rightarrow> (Inl e, w)
      | None \<Rightarrow>
          (let start_time = clock w;
               w1 = w\<lparr>sdk_calls := Suc (sdk_calls w), clock := clock w + sdk_seconds s (sdk_calls w)\<rparr>
           in case generate_content s (sdk_calls w) of
                Inl msg \<Rightarrow> (Inl (TransportError msg), w1)
              | Inr response \<Rightarrow>
                  (let generated_text = (case sdk_text response of None \<Rightarrow> [] | Some t \<Rightarrow> t);
                       latency = (clock w1 - start_time) * 1000;
                       prompt_tokens = usage_get (sdk_usage_metadata response) ''prompt_token_count'' 0;
                       completion_tokens =
                         usage_get (sdk_usage_metadata response) ''candidates_token_count'' 0;
                       total_tokens =
                         (case sdk_usage_metadata response of
                            None \<Rightarrow> 0
                          | Some u \<Rightarrow> dict_get u ''total_token_count'' (prompt_tokens + completion_tokens));
                       c = calculate_cost GeminiProvider prompt_tokens completion_tokens model_id
                   in case log_kw INFO [''model'', ''thinking_budget'', ''tokens'', ''latency_ms''] w1 of
                        Some e \<Rightarrow> (Inl e, w1)
                      | None \<Rightarrow>
                          (map_sum id Some
                             (new_LLMResponse
                                [''content'', ''model'', ''provider'', ''tokens_used'', ''cost'',
                                 ''latency_ms'', ''metadata'']
                                \<lparr>content = generated_text, model = model_id,
                                 provider = ProviderName ''gemini'',
                                 tokens_used = total_tokens, cost = c, latency_ms = latency,
                                 resp_metadata =
                                   [(''prompt_tokens'', MetaVal (PInt prompt_tokens)),
                                    (''completion_tokens'', MetaVal (PInt completion_tokens)),
                                    (''thinking_mode'', MetaVal (PBool True)),
                                    (''thinking_budget'', MetaVal thinking_budget),
                                    (''sdk_used'', MetaVal (PStr ''google-genai''))],
                                 finish_reason = None, error = None\<rparr>),
                           w1))))"

definition gemini_generate_with_sdk ::
  "sdk \<Rightarrow> string \<Rightarrow> pyval \<Rightarrow> world \<Rightarrow> (py_exception + LLMResponse option) \<times> world" where
  "gemini_generate_with_sdk s model_id thinking_budget w =
     (case gemini_sdk_try s model_id thinking_budget w of
        (Inr r, w') \<Rightarrow> (Inr r, w')
      | (Inl e, w') \<Rightarrow>
          (case log_kw ERROR [''model'', ''thinking_budget''] w' of
             Some e' \<Rightarrow> (Inl e', w')
           | None \<Rightarrow> (Inl e, w')))"

subsection \<open>\<^verbatim>\<open>generate\<close>\<close>

text \<open>
  The body of \<^verbatim>\<open>GeminiProvider.generate\<close>, as written under the decorator. The call
  has been admitted by \<^verbatim>\<open>async with self._rate_limiter\<close>; the gate itself is the
  subject of the last section.
\<close>

definition thinking_budget_of :: "LLMRequest \<Rightarrow> pyval" where
  "thinking_budget_of request =
     (if metadata request \<noteq> [] then kw_get (metadata request) ''thinking_budget'' PNone else PNone)"

definition gemini_generate_body ::
  "gemini_provider \<Rightarrow> gemini_data vendor \<Rightarrow> sdk \<Rightarrow> LLMRequest \<Rightarrow> world
     \<Rightarrow> (py_exception + LLMResponse option) \<times> world" where
  "gemini_generate_body self v s request w =
     (case validate_request request of
        Inl e \<Rightarrow> (Inl e, w)
      | Inr _ \<Rightarrow>
          (let model_id = or_else (model_override request) (default_model self);
               thinking_budget = thinking_budget_of request
           in if thinking_budget \<noteq> PNone \<and> genai_client self
              then gemini_generate_with_sdk s model_id thinking_budget w
              else gemini_rest_loop self v model_id (clock w) None 0 w))"

subsection \<open>The decorator\<close>

text \<open>
  Modelled from the spec: the decorator \<^verbatim>\<open>SmartRetry\<close> of \<^verbatim>\<open>shared.utils.retry\<close>, which
  \<^verbatim>\<open>gemini_provider.py\<close> imports and which is not among the source files. The spec's
  Resilience Executor (section 4.5) dispatches the call; on a failure of a retryable
  kind, if the attempt count is below the configured maximum, it waits the backoff
  delay (the base delay, doubling per attempt) and dispatches again; otherwise the
  error is propagated unchanged. Never retried are AuthenticationFailed,
  QuotaExceeded, ContentFiltered and ContextLengthExceeded. \<open>retry_on\<close> is the
  decorator's filter on the exception class.
\<close>

fun never_retried :: "py_exception \<Rightarrow> bool" where
  "never_retried (Raised e) =
     (cls e \<in> {AuthenticationError, QuotaExceededError, ContentFilterError, ContextLengthExceededError})"
| "never_retried _ = False"

function SmartRetry ::
  "nat \<Rightarrow> rat \<Rightarrow> (py_exception \<Rightarrow> bool) \<Rightarrow> (world \<Rightarrow> (py_exception + 'a) \<times> world) \<Rightarrow> nat \<Rightarrow> world
     \<Rightarrow> (py_exception + 'a) \<times> world" where
  "SmartRetry retries base_delay retry_on body attempts w =
     (case fst (body w) of
        Inr r \<Rightarrow> body w
      | Inl e \<Rightarrow>
          if retry_on e \<and> \<not> never_retried e \<and> Suc attempts < retries
          then SmartRetry retries base_delay retry_on body (Suc attempts)
                 (sleep (base_delay * 2 ^ attempts) (snd (body w)))
          else body w)"
  by pat_completeness auto
termination
  by (relation "measure (\<lambda>(retries, base_delay, retry_on, body, attempts, w). retries - attempts)") auto

declare SmartRetry.simps [simp del]

text \<open>
  \<^verbatim>\<open>@SmartRetry(max_retries=3, base_delay=2.0, retry_on=(Exception,))\<close> over the body:
  what a caller of \<^verbatim>\<open>GeminiProvider.generate\<close> runs. Every exception of the model is
  an instance of \<^verbatim>\<open>Exception\<close>.
\<close>

definition gemini_generate ::
  "gemini_provider \<Rightarrow> gemini_data vendor \<Rightarrow> sdk \<Rightarrow> LLMRequest \<Rightarrow> world
     \<Rightarrow> (py_exception + LLMResponse option) \<times> world" where
  "gemini_generate self v s request w =
     SmartRetry 3 2 (\<lambda>e. True) (gemini_generate_body self v s request) 0 w"

section \<open>Properties of the providers\<close>

lemma new_LLMResponse_result: "new_LLMResponse ks r = Inr r' \<Longrightarrow> r' = r"
  by (auto simp add: new_LLMResponse_def split: list.splits)

lemma new_LLMResponse_unclassified: "new_LLMResponse ks r = Inl e \<Longrightarrow> \<not> classified e"
  by (auto simp add: new_LLMResponse_def split: list.splits)

lemma log_kw_unclassified: "log_kw level keys w = Some e \<Longrightarrow> \<not> classified e"
  by (auto simp add: log_kw_def log_call_def split: if_splits list.splits)

lemma log_kw_enabled:
  "log_level w \<le> level \<Longrightarrow> k \<notin> set logger_kwargs \<Longrightarrow>
   log_kw level (k # ks) w = Some (TypeError (''Logger._log() got an unexpected keyword argument '' @ k))"
  by (simp add: log_kw_def log_call_def)

lemma log_kw_disabled: "level < log_level w \<Longrightarrow> log_kw level keys w = None"
  by (simp add: log_kw_def log_call_def)

lemma anthropic_success_raises:
  "\<exists>m. anthropic_success model_id start_time end_time data w = Inl (TypeError m)"
  by (simp add: anthropic_success_def new_LLMResponse_def LLMResponse_fields_def Let_def log_kw_def log_call_def
      logger_kwargs_def)

lemma openai_success_never_returns: "openai_success model_id start_time end_time data w \<noteq> Inr r"
  by (simp add: openai_success_def new_LLMResponse_def LLMResponse_fields_def Let_def
      split: sum.splits option.splits)

lemma validate_request_unclassified: "validate_request request = Inl e \<Longrightarrow> \<not> classified e"
  by (auto simp add: validate_request_def split: if_splits)

lemma anthropic_generate_unclassified:
  "fst (anthropic_generate self va request w) = Inl e \<Longrightarrow> \<not> classified e"
  by (auto simp add: anthropic_generate_def request_model_def split: sum.splits
      dest: validate_request_unclassified)

lemma openai_generate_unclassified:
  "fst (openai_generate self vo request w) = Inl e \<Longrightarrow> \<not> classified e"
  by (auto simp add: openai_generate_def request_model_def split: sum.splits
      dest: validate_request_unclassified)

subsection \<open>One attempt of the Gemini provider\<close>

lemma gemini_success_unclassified:
  "gemini_success self model_id start_time now bound result = Inl e \<Longrightarrow> \<not> classified e"
  by (auto simp add: gemini_success_def gemini_text_def Let_def
      split: sum.splits option.splits list.splits dest: new_LLMResponse_unclassified)

lemma gemini_success_cost:
  "gemini_success self model_id start_time now bound result = Inr r \<Longrightarrow> cost r = 0"
  by (auto simp add: gemini_success_def Let_def gemini_calculate_cost_zero
      split: sum.splits option.splits dest!: new_LLMResponse_result)

lemma gemini_try_unclassified:
  "gemini_try self model_id start_time bound attempt outcome w = Inl e \<Longrightarrow> \<not> classified e"
  by (auto simp add: gemini_try_def map_sum_def
      split: http_outcome.splits if_splits option.splits sum.splits
      dest: gemini_success_unclassified log_kw_unclassified)

lemma gemini_try_cost:
  "gemini_try self model_id start_time bound attempt outcome w = Inr (Some r) \<Longrightarrow> cost r = 0"
  by (auto simp add: gemini_try_def map_sum_def
      split: http_outcome.splits if_splits option.splits sum.splits
      dest: gemini_success_cost)

lemma gemini_except_unclassified:
  "\<not> classified e \<Longrightarrow> gemini_except self attempt w e = Inl e' \<Longrightarrow> \<not> classified e'"
  by (auto simp add: gemini_except_def split: py_exception.splits option.splits if_splits
      dest: log_kw_unclassified)

lemma gemini_except_never_returns: "gemini_except self attempt w e \<noteq> Inr (Some r)"
  by (simp add: gemini_except_def split: py_exception.splits option.splits)

lemma gemini_attempt_unclassified:
  "gemini_attempt self model_id start_time bound attempt outcome w = Inl e \<Longrightarrow> \<not> classified e"
  by (auto simp add: gemini_attempt_def split: sum.splits
      dest: gemini_try_unclassified gemini_except_unclassified)

lemma gemini_attempt_cost:
  "gemini_attempt self model_id start_time bound attempt outcome w = Inr (Some r) \<Longrightarrow> cost r = 0"
  by (auto simp add: gemini_attempt_def gemini_except_never_returns split: sum.splits
      dest: gemini_try_cost)

subsection \<open>The loop, the SDK path and the whole body\<close>

lemma gemini_rest_loop_unclassified:
  "fst (gemini_rest_loop self v model_id start_time bound attempt w) = Inl e \<Longrightarrow> \<not> classified e"
proof (induction self v model_id start_time bound attempt w rule: gemini_rest_loop.induct)
  case (1 self v model_id start_time bound attempt w)
  show ?case
  proof (cases "gemini_attempt self model_id start_time bound attempt
                  (fst (http_post v w)) (snd (http_post v w))")
    case (Inl e')
    with "1.prems" show ?thesis
      by (auto simp add: gemini_rest_loop.simps[of self v model_id start_time bound attempt w]
          split: if_splits dest: gemini_attempt_unclassified)
  next
    case (Inr x)
    show ?thesis
    proof (cases x)
      case None
      with Inr "1.prems" "1.IH" show ?thesis
        by (auto simp add: gemini_rest_loop.simps[of self v model_id start_time bound attempt w]
            split: if_splits)
    next
      case (Some r)
      with Inr "1.prems" show ?thesis
        by (auto simp add: gemini_rest_loop.simps[of self v model_id start_time bound attempt w]
            split: if_splits)
    qed
  qed
qed

lemma gemini_rest_loop_cost:
  "fst (gemini_rest_loop self v model_id start_time bound attempt w) = Inr (Some r) \<Longrightarrow> cost r = 0"
proof (induction self v model_id start_time bound attempt w rule: gemini_rest_loop.induct)
  case (1 self v model_id start_time bound attempt w)
  show ?case
  proof (cases "gemini_attempt self model_id start_time bound attempt
                  (fst (http_post v w)) (snd (http_post v w))")
    case (Inl e')
    with "1.prems" show ?thesis
      by (auto simp add: gemini_rest_loop.simps[of self v model_id start_time bound attempt w]
          split: if_splits)
  next
    case (Inr x)
    show ?thesis
    proof (cases x)
      case None
      with Inr "1.prems" "1.IH" show ?thesis
        by (auto simp add: gemini_rest_loop.simps[of self v model_id start_time bound attempt w]
            split: if_splits)
    next
      case (Some r')
      with Inr "1.prems" show ?thesis
        by (auto simp add: gemini_rest_loop.simps[of self v model_id start_time bound attempt w]
            split: if_splits dest: gemini_attempt_cost)
    qed
  qed
qed

lemma gemini_sdk_try_unclassified:
  "fst (gemini_sdk_try s model_id thinking_budget w) = Inl e \<Longrightarrow> \<not> classified e"
  by (auto simp add: gemini_sdk_try_def Let_def map_sum_def
      split: sum.splits option.splits dest: new_LLMResponse_unclassified log_kw_unclassified)

lemma gemini_sdk_try_cost:
  "fst (gemini_sdk_try s model_id thinking_budget w) = Inr (Some r) \<Longrightarrow> cost r = 0"
  by (auto simp add: gemini_sdk_try_def Let_def map_sum_def gemini_calculate_cost_zero
      split: sum.splits option.splits dest!: new_LLMResponse_result)

lemma gemini_generate_with_sdk_unclassified:
  "fst (gemini_generate_with_sdk s model_id thinking_budget w) = Inl e \<Longrightarrow> \<not> classified e"
proof -
  assume a: "fst (gemini_generate_with_sdk s model_id thinking_budget w) = Inl e"
  obtain r w' where t: "gemini_sdk_try s model_id thinking_budget w = (r, w')"
    by (cases "gemini_sdk_try s model_id thinking_budget w")
  then have "fst (gemini_sdk_try s model_id thinking_budget w) = r" by simp
  with gemini_sdk_try_unclassified[of s model_id thinking_budget w]
  have "\<And>e0. r = Inl e0 \<Longrightarrow> \<not> classified e0" by simp
  with a t show ?thesis
    by (auto simp add: gemini_generate_with_sdk_def split: sum.splits option.splits
        dest: log_kw_unclassified)
qed

lemma gemini_generate_with_sdk_cost:
  "fst (gemini_generate_with_sdk s model_id thinking_budget w) = Inr (Some r) \<Longrightarrow> cost r = 0"
proof -
  assume a: "fst (gemini_generate_with_sdk s model_id thinking_budget w) = Inr (Some r)"
  obtain x w' where t: "gemini_sdk_try s model_id thinking_budget w = (x, w')"
    by (cases "gemini_sdk_try s model_id thinking_budget w")
  with a have "fst (gemini_sdk_try s model_id thinking_budget w) = Inr (Some r)"
    by (auto simp add: gemini_generate_with_sdk_def split: sum.splits option.splits)
  then show ?thesis by (rule gemini_sdk_try_cost)
qed

lemma gemini_generate_body_unclassified:
  "fst (gemini_generate_body self v s request w) = Inl e \<Longrightarrow> \<not> classified e"
  by (auto simp add: gemini_generate_body_def Let_def split: sum.splits if_splits
      dest: validate_request_unclassified gemini_rest_loop_unclassified
            gemini_generate_with_sdk_unclassified)

lemma gemini_generate_body_cost:
  "fst (gemini_generate_body self v s request w) = Inr (Some r) \<Longrightarrow> cost r = 0"
  by (auto simp add: gemini_generate_body_def Let_def split: sum.splits if_splits
      dest: gemini_rest_loop_cost gemini_generate_with_sdk_cost)

text \<open>What the decorated call returns is what one of the runs of the body returned.\<close>

lemma SmartRetry_is_a_run:
  "\<exists>w'. SmartRetry retries base_delay retry_on body attempts w = body w'"
proof (induction retries base_delay retry_on body attempts w rule: SmartRetry.induct)
  case (1 retries base_delay retry_on body attempts w)
  show ?case
  proof (cases "fst (body w)")
    case (Inl e)
    with "1.IH" show ?thesis
      by (auto simp add: SmartRetry.simps[of retries base_delay retry_on body attempts w])
  next
    case (Inr r)
    then show ?thesis
      by (auto simp add: SmartRetry.simps[of retries base_delay retry_on body attempts w])
  qed
qed

subsection \<open>What a call does to the world\<close>

lemma http_post_world [simp]:
  "http_calls (snd (http_post v w)) = Suc (http_calls w)"
  "sdk_calls (snd (http_post v w)) = sdk_calls w"
  "sleeps (snd (http_post v w)) = sleeps w"
  "log_level (snd (http_post v w)) = log_level w"
  "fst (http_post v w) = post v (http_calls w)"
  by (simp_all add: http_post_def)

lemma sleep_world [simp]:
  "http_calls (sleep t w) = http_calls w"
  "sdk_calls (sleep t w) = sdk_calls w"
  "sleeps (sleep t w) = sleeps w @ [t]"
  "log_level (sleep t w) = log_level w"
  by (simp_all add: sleep_def)

subsection \<open>The Gemini provider when a POST gets status 401\<close>









subsection \<open>The decorator when every run of the body fails\<close>

lemma SmartRetry_3_all_fail:
  assumes "\<And>w. \<exists>e. fst (body w) = Inl e \<and> \<not> never_retried e"
  shows "SmartRetry 3 d (\<lambda>e. True) body 0 w =
         body (sleep (d * 2) (snd (body (sleep d (snd (body w))))))"
proof -
  let ?w1 = "sleep d (snd (body w))"
  let ?w2 = "sleep (d * 2) (snd (body ?w1))"
  obtain e0 where e0: "fst (body w) = Inl e0" "\<not> never_retried e0" using assms by blast
  obtain e1 where e1: "fst (body ?w1) = Inl e1" "\<not> never_retried e1" using assms by blast
  obtain e2 where e2: "fst (body ?w2) = Inl e2" "\<not> never_retried e2" using assms by blast
  have s0: "SmartRetry 3 d (\<lambda>e. True) body 0 w = SmartRetry 3 d (\<lambda>e. True) body (Suc 0) ?w1"
    using e0 by (simp add: SmartRetry.simps[of 3 d "\<lambda>e. True" body 0 w])
  have s1: "SmartRetry 3 d (\<lambda>e. True) body (Suc 0) ?w1 =
            SmartRetry 3 d (\<lambda>e. True) body (Suc (Suc 0)) ?w2"
    using e1 by (simp add: SmartRetry.simps[of 3 d "\<lambda>e. True" body "Suc 0" ?w1])
  have s2: "SmartRetry 3 d (\<lambda>e. True) body (Suc (Suc 0)) ?w2 = body ?w2"
    using e2 by (simp add: SmartRetry.simps[of 3 d "\<lambda>e. True" body "Suc (Suc 0)" ?w2])
  show ?thesis using s0 s1 s2 by simp
qed

section \<open>Concrete runs\<close>

text \<open>
  A fresh world with the loggers at their default level \<^verbatim>\<open>WARNING\<close> (and the same
  world with logging disabled up to \<^verbatim>\<open>CRITICAL\<close>), the request \<^verbatim>\<open>LLMRequest(prompt="Hello")\<close> with the defaults of the
  dataclass, a Gemini provider with the defaults of its constructor and no SDK
  client, a vendor that answers 401 to every POST and one that answers 200 with one candidate.
\<close>

definition world0 :: world where
  "world0 = \<lparr>http_calls = 0, sdk_calls = 0, sleeps = [], clock = 0, log_level = 30\<rparr>"

definition world_quiet :: world where
  "world_quiet = world0\<lparr>log_level := 51\<rparr>"

definition hello_request :: LLMRequest where
  "hello_request =
     \<lparr>prompt = ''Hello'', system_message = None, temperature = 7 / 10, max_tokens = 2048,
      top_p = 9 / 10, stream = False, metadata = [], model_override = None, timeout = None\<rparr>"

definition gemini_default :: gemini_provider where
  "gemini_default =
     \<lparr>default_model = ''gemini-2.5-flash'', thinking_mode = True, request_timeout = 60,
      max_retries = 3, genai_client = False\<rparr>"

definition vendor_401 :: "gemini_data vendor" where
  "vendor_401 =
     \<lparr>post = (\<lambda>k. HttpResponse 401 ''API key not valid'' None), post_seconds = (\<lambda>k. 1)\<rparr>"

definition vendor_ok :: "gemini_data vendor" where
  "vendor_ok =
     \<lparr>post = (\<lambda>k. HttpResponse 200 []
               (Some \<lparr>candidates =
                        Some [\<lparr>cand_parts = Some [Some ''Hi''], cand_finishReason = Some ''STOP''\<rparr>],
                      usageMetadata =
                        Some [(''promptTokenCount'', 3), (''candidatesTokenCount'', 2),
                              (''totalTokenCount'', 5)]\<rparr>)),
      post_seconds = (\<lambda>k. 1 / 2)\<rparr>"

definition no_sdk :: sdk where
  "no_sdk = \<lparr>generate_content = (\<lambda>k. Inl ''no client''), sdk_seconds = (\<lambda>k. 0)\<rparr>"

text \<open>
  An Anthropic or OpenAI provider without \<^verbatim>\<open>default_model\<close> in its configuration, and a
  vendor whose every POST times out.
\<close>

definition api_default :: api_provider where
  "api_default = \<lparr>config_default_model = None\<rparr>"

definition vendor_timeout :: "'d vendor" where
  "vendor_timeout = \<lparr>post = (\<lambda>k. HttpTimeout), post_seconds = (\<lambda>k. 30)\<rparr>"

section \<open>What \<^verbatim>\<open>generate\<close> returns and raises\<close>

subsection \<open>A successful vendor call\<close>

text \<open>
  Claim C1 does not hold of the Anthropic and the OpenAI provider. For every
  configuration, vendor, request and world, \<^verbatim>\<open>generate\<close> raises: the error of the
  validation for an invalid request, and \<^verbatim>\<open>AttributeError\<close> for a valid one, because
  \<^verbatim>\<open>request.model\<close> is read and \<^verbatim>\<open>LLMRequest\<close> has no such attribute. The world is
  unchanged: no vendor call is made, whatever the vendor would have answered, and no
  response is returned.
\<close>

theorem anthropic_openai_generate_raise:
  "anthropic_generate self va request w =
     (case validate_request request of
        Inl e \<Rightarrow> (Inl e, w)
      | Inr ok \<Rightarrow> (Inl (AttributeError ''LLMRequest object has no attribute model''), w))
   \<and> openai_generate self vo request w =
     (case validate_request request of
        Inl e \<Rightarrow> (Inl e, w)
      | Inr ok \<Rightarrow> (Inl (AttributeError ''LLMRequest object has no attribute model''), w))"
  by (simp add: anthropic_generate_def openai_generate_def request_model_def split: sum.splits)

text \<open>
  Were \<^verbatim>\<open>request.model\<close> readable, the construction of the response would raise
  \<^verbatim>\<open>TypeError\<close>: both providers pass \<^verbatim>\<open>input_tokens\<close> and \<^verbatim>\<open>output_tokens\<close>, which are
  no fields of \<^verbatim>\<open>LLMResponse\<close> (lemmas \<open>anthropic_success_raises\<close> and
  \<open>openai_success_never_returns\<close>). The Gemini provider reads
  \<^verbatim>\<open>request.model_override\<close> and passes the fields the dataclass has; its call
  returns a response:
\<close>

lemma gemini_generate_body_ok:
  "gemini_generate_body gemini_default vendor_ok no_sdk hello_request world0 =
     (Inr (Some \<lparr>content = ''Hi'', model = ''gemini-2.5-flash'', provider = ProviderName ''gemini'',
                 tokens_used = 5, cost = 0, latency_ms = 500,
                 resp_metadata =
                   [(''prompt_tokens'', MetaVal (PInt 3)), (''completion_tokens'', MetaVal (PInt 2)),
                    (''thinking_mode'', MetaVal (PBool True)),
                    (''finish_reason'', MetaVal (PStr ''STOP''))],
                 finish_reason = None, error = None\<rparr>),
      \<lparr>http_calls = 1, sdk_calls = 0, sleeps = [], clock = 1 / 2, log_level = 30\<rparr>)"
  by code_simp

subsection \<open>The errors of \<^verbatim>\<open>generate\<close>\<close>

text \<open>Whether a result is a raised error of the taxonomy of \<^verbatim>\<open>exceptions.py\<close>.\<close>

definition raises_classified :: "py_exception + 'a \<Rightarrow> bool" where
  "raises_classified r = (case r of Inl e \<Rightarrow> classified e | Inr x \<Rightarrow> False)"

text \<open>
  Claim C2, as the code has it. For each of the three providers and every
  configuration, vendor, request and world (whatever the level of the loggers),
  \<^verbatim>\<open>generate\<close> never raises an error of the taxonomy of \<^verbatim>\<open>exceptions.py\<close>: no provider
  constructs one.
\<close>

theorem generate_never_raises_classified:
  "\<not> raises_classified (fst (anthropic_generate a va request w))
   \<and> \<not> raises_classified (fst (openai_generate b vo request w))
   \<and> \<not> raises_classified (fst (gemini_generate_body g v s request w))"
  by (auto simp add: raises_classified_def split: sum.splits
      dest: anthropic_generate_unclassified openai_generate_unclassified
            gemini_generate_body_unclassified)

text \<open>
  Claim C2 as stated fails: a Gemini call whose POST gets status 401 ends, with the
  loggers at their default level, with the \<^verbatim>\<open>TypeError\<close> of the logger call in the
  handler, and with logging disabled, once the attempts of the loop are used up, with
  a plain \<^verbatim>\<open>Exception\<close>; neither is an error of the taxonomy.
\<close>

theorem gemini_401_raises_unclassified:
  "fst (gemini_generate_body gemini_default vendor_401 no_sdk hello_request world0) =
     Inl (TypeError ''Logger._log() got an unexpected keyword argument error'')
   \<and> \<not> classified (TypeError ''Logger._log() got an unexpected keyword argument error'')
   \<and> fst (gemini_generate_body gemini_default vendor_401 no_sdk hello_request world_quiet) =
     Inl (Exception ''Gemini API authentication (HTTP 401): API key not valid'')
   \<and> \<not> classified (Exception ''Gemini API authentication (HTTP 401): API key not valid'')"
  by code_simp

text \<open>The decorator hands on what one of the runs of the body gave.\<close>

lemma gemini_generate_never_raises_classified:
  "\<not> raises_classified (fst (gemini_generate g v s request w))"
proof -
  obtain w' where run: "gemini_generate g v s request w = gemini_generate_body g v s request w'"
    unfolding gemini_generate_def using SmartRetry_is_a_run by blast
  show ?thesis
    unfolding run
    by (auto simp add: raises_classified_def split: sum.splits
        dest: gemini_generate_body_unclassified)
qed

subsection \<open>Status 401 and the number of attempts\<close>




text \<open>
  Under the decorator the body runs three times, since neither \<^verbatim>\<open>TypeError\<close> nor a plain
  \<^verbatim>\<open>Exception\<close> is among the kinds that are never retried: three POSTs at the default
  level of the loggers, nine with logging disabled.
\<close>

lemma gemini_generate_401_decorated:
  "gemini_generate gemini_default vendor_401 no_sdk hello_request world0 =
     (Inl (TypeError ''Logger._log() got an unexpected keyword argument error''),
      \<lparr>http_calls = 3, sdk_calls = 0, sleeps = [2, 4], clock = 9, log_level = 30\<rparr>)"
  "gemini_generate gemini_default vendor_401 no_sdk hello_request world_quiet =
     (Inl (Exception ''Gemini API authentication (HTTP 401): API key not valid''),
      \<lparr>http_calls = 9, sdk_calls = 0, sleeps = [1, 2, 2, 1, 2, 4, 1, 2], clock = 24,
       log_level = 51\<rparr>)"
  by code_simp+

subsection \<open>Validation comes before the network\<close>

text \<open>
  Claim C6, as the code has it. For a request with an empty prompt, a temperature
  outside [0, 2] or \<^verbatim>\<open>max_tokens\<close> below 1, \<^verbatim>\<open>validate_request\<close> raises \<^verbatim>\<open>ValueError\<close>,
  and \<^verbatim>\<open>generate\<close> of each of the three providers raises that same error and leaves
  the world as it was: no POST, no SDK call, no sleep. A request with a non-empty
  prompt, a temperature in [0, 2] and \<^verbatim>\<open>max_tokens\<close> at least 1 passes the validation.
\<close>

theorem validate_request_before_network:
  "(prompt request = [] \<or> temperature request < 0 \<or> 2 < temperature request
      \<or> max_tokens request < 1 \<longrightarrow>
      (\<exists>msg. validate_request request = Inl (ValueError msg)
         \<and> anthropic_generate a va request w = (Inl (ValueError msg), w)
         \<and> openai_generate b vo request w = (Inl (ValueError msg), w)
         \<and> gemini_generate_body g v s request w = (Inl (ValueError msg), w)))
   \<and> (prompt request \<noteq> [] \<and> 0 \<le> temperature request \<and> temperature request \<le> 2
      \<and> 1 \<le> max_tokens request \<longrightarrow> validate_request request = Inr True)"
  by (auto simp add: validate_request_def anthropic_generate_def openai_generate_def
      gemini_generate_body_def)

theorem validate_request_before_network_witness:
  "(\<exists>msg. validate_request (hello_request\<lparr>max_tokens := 0\<rparr>) = Inl (ValueError msg)
      \<and> anthropic_generate api_default vendor_timeout (hello_request\<lparr>max_tokens := 0\<rparr>) world0
          = (Inl (ValueError msg), world0)
      \<and> openai_generate api_default vendor_timeout (hello_request\<lparr>max_tokens := 0\<rparr>) world0
          = (Inl (ValueError msg), world0)
      \<and> gemini_generate_body gemini_default vendor_ok no_sdk (hello_request\<lparr>max_tokens := 0\<rparr>) world0
          = (Inl (ValueError msg), world0))
   \<and> validate_request hello_request = Inr True"
  using validate_request_before_network [where request = "hello_request\<lparr>max_tokens := 0\<rparr>"
      and a = api_default and va = vendor_timeout and b = api_default and vo = vendor_timeout
      and g = gemini_default and v = vendor_ok and s = no_sdk and w = world0]
    validate_request_before_network [where request = hello_request]
  by (simp add: hello_request_def)

text \<open>
  Claim C6 as stated fails in the kind of the error: the validation raises the
  built-in \<^verbatim>\<open>ValueError\<close>, not \<^verbatim>\<open>InvalidRequestError\<close>, and \<^verbatim>\<open>generate\<close> hands it on.
\<close>

theorem validate_request_raises_ValueError:
  "validate_request (hello_request\<lparr>prompt := []\<rparr>) = Inl (ValueError ''Prompt cannot be empty'')
   \<and> \<not> classified (ValueError ''Prompt cannot be empty'')
   \<and> gemini_generate_body gemini_default vendor_ok no_sdk (hello_request\<lparr>prompt := []\<rparr>) world0 =
       (Inl (ValueError ''Prompt cannot be empty''), world0)"
  by code_simp

text \<open>
  The decorator runs the body of the Gemini provider three times on such a request,
  sleeping in between; it makes no vendor call either.
\<close>

lemma gemini_generate_invalid_request:
  assumes "validate_request request = Inl e"
  shows "fst (gemini_generate g v s request w) = Inl e
         \<and> http_calls (snd (gemini_generate g v s request w)) = http_calls w
         \<and> sdk_calls (snd (gemini_generate g v s request w)) = sdk_calls w"
proof -
  let ?body = "gemini_generate_body g v s request"
  have body: "\<And>w. ?body w = (Inl e, w)"
    using assms by (simp add: gemini_generate_body_def)
  have unretried: "\<not> never_retried e"
    using assms by (auto simp add: validate_request_def split: if_splits)
  have fails: "\<And>w. \<exists>e. fst (?body w) = Inl e \<and> \<not> never_retried e"
    using body unretried by simp
  show ?thesis
    unfolding gemini_generate_def SmartRetry_3_all_fail [of ?body, OF fails]
    by (simp add: body)
qed

subsection \<open>The cost of a Gemini call\<close>

text \<open>
  Claim C10. For the Gemini provider \<^verbatim>\<open>get_cost_per_token\<close> is the zero pair for every
  model, \<^verbatim>\<open>calculate_cost\<close> is 0 for all token counts and every model, and every
  response that \<^verbatim>\<open>generate\<close> returns, by the REST loop or by the SDK, carries cost 0.
\<close>

theorem gemini_cost_zero:
  "get_cost_per_token GeminiProvider model_id = \<lparr>input_cost = 0, output_cost = 0\<rparr>
   \<and> calculate_cost GeminiProvider n_in n_out model_id = 0
   \<and> (fst (gemini_generate_body self v s request w) = Inr (Some r) \<longrightarrow> cost r = 0)"
  by (simp add: gemini_calculate_cost_zero gemini_generate_body_cost)

theorem gemini_cost_zero_witness:
  "get_cost_per_token GeminiProvider ''gemini-2.5-pro'' = \<lparr>input_cost = 0, output_cost = 0\<rparr>
   \<and> calculate_cost GeminiProvider 1000 2000 ''gemini-2.5-pro'' = 0
   \<and> (\<exists>r. fst (gemini_generate_body gemini_default vendor_ok no_sdk hello_request world0)
             = Inr (Some r) \<and> cost r = 0)"
  using gemini_cost_zero [where model_id = "''gemini-2.5-pro''" and n_in = 1000 and n_out = 2000
      and self = gemini_default and v = vendor_ok and s = no_sdk and request = hello_request
      and w = world0]
  by (simp add: gemini_generate_body_ok)

text \<open>The same under the decorator.\<close>

lemma gemini_generate_cost_zero:
  "fst (gemini_generate self v s request w) = Inr (Some r) \<Longrightarrow> cost r = 0"
proof -
  assume ret: "fst (gemini_generate self v s request w) = Inr (Some r)"
  obtain w' where run: "gemini_generate self v s request w = gemini_generate_body self v s request w'"
    unfolding gemini_generate_def using SmartRetry_is_a_run by blast
  from ret show "cost r = 0"
    unfolding run by (rule gemini_generate_body_cost)
qed

section \<open>The admission gate of the Gemini provider\<close>

subsection \<open>The constructor\<close>

text \<open>
  The keys of the configuration dictionary that \<^verbatim>\<open>GeminiProvider.__init__\<close> reads;
  \<open>None\<close> is an absent key.
\<close>

record gemini_config =
  max_concurrent_requests :: "int option"
  api_key :: "string option"
  cfg_default_model :: "string option"
  cfg_thinking_mode :: "bool option"
  cfg_timeout :: "int option"
  cfg_max_retries :: "int option"

text \<open>
  \<^verbatim>\<open>asyncio.Semaphore(value)\<close>: a negative value raises \<^verbatim>\<open>ValueError\<close>. Of the semaphore
  the model keeps the counter \<^verbatim>\<open>_value\<close>, the number of free slots.
\<close>

definition Semaphore :: "int \<Rightarrow> py_exception + nat" where
  "Semaphore v =
     (if v < 0 then Inl (ValueError ''Semaphore initial value must be >= 0'') else Inr (nat v))"

text \<open>\<^verbatim>\<open>config.get('max_concurrent_requests', 8)\<close>.\<close>

definition max_concurrent :: "gemini_config \<Rightarrow> int" where
  "max_concurrent config = (case max_concurrent_requests config of None \<Rightarrow> 8 | Some n \<Rightarrow> n)"

text \<open>
  \<^verbatim>\<open>config.get('api_key') or os.getenv('GEMINI_API_KEY')\<close>, then \<^verbatim>\<open>if not self.api_key\<close>:
  the key that is used, if there is a non-empty one. \<open>getenv\<close> is the environment
  variable.
\<close>

definition api_key_of :: "gemini_config \<Rightarrow> string option \<Rightarrow> string option" where
  "api_key_of config getenv =
     (case (case api_key config of
              Some k \<Rightarrow> if k \<noteq> [] then Some k else getenv
            | None \<Rightarrow> getenv) of
        Some k \<Rightarrow> if k \<noteq> [] then Some k else None
      | None \<Rightarrow> None)"

text \<open>
  \<^verbatim>\<open>GeminiProvider.__init__\<close>. \<^verbatim>\<open>_rate_limiter\<close> is an attribute of the class, \<^verbatim>\<open>None\<close> in
  the class body: the constructor reads and writes \<^verbatim>\<open>GeminiProvider._rate_limiter\<close>,
  so the model passes the attribute in and out. It is assigned only while it is
  \<^verbatim>\<open>None\<close>, before the API key is looked at, and the assignment is followed by a
  \<^verbatim>\<open>logger.info\<close> call with a keyword argument; another one ends the constructor.
  \<open>sdk_client\<close> says whether the SDK is installed and its client could be made,
  \<open>threshold\<close> is the level from which the loggers are enabled. An exception leaves no
  adapter behind, but an assigned class attribute stays.
\<close>

definition GeminiProvider_init ::
  "gemini_config \<Rightarrow> string option \<Rightarrow> bool \<Rightarrow> int \<Rightarrow> nat option
     \<Rightarrow> (py_exception + gemini_provider) \<times> nat option" where
  "GeminiProvider_init config getenv sdk_client threshold limiter =
     (case (case limiter of
              None \<Rightarrow>
                (case Semaphore (max_concurrent config) of
                   Inl e \<Rightarrow> (Some e, None)
                 | Inr sem \<Rightarrow> (log_call INFO [''max_concurrent''] threshold, Some sem))
            | Some sem \<Rightarrow> (None, Some sem)) of
        (Some e, limiter') \<Rightarrow> (Inl e, limiter')
      | (None, limiter') \<Rightarrow>
          (case api_key_of config getenv of
             None \<Rightarrow> (Inl (ValueError ''Gemini API key not provided''), limiter')
           | Some k \<Rightarrow>
               (case log_call INFO [''model'', ''thinking_mode'', ''genai_sdk_available''] threshold of
                  Some e \<Rightarrow> (Inl e, limiter')
                | None \<Rightarrow>
                    (Inr \<lparr>default_model =
                            (case cfg_default_model config of
                               None \<Rightarrow> ''gemini-2.5-flash'' | Some m \<Rightarrow> m),
                          thinking_mode =
                            (case cfg_thinking_mode config of None \<Rightarrow> True | Some b \<Rightarrow> b),
                          request_timeout = (case cfg_timeout config of None \<Rightarrow> 60 | Some t \<Rightarrow> t),
                          max_retries = (case cfg_max_retries config of None \<Rightarrow> 3 | Some n \<Rightarrow> n),
                          genai_client = sdk_client\<rparr>,
                     limiter'))))"

subsection \<open>Calls that run at the same time\<close>

text \<open>
  The calls of \<^verbatim>\<open>generate\<close> are tasks of one event loop. A call on the REST path is,
  for the gate, in one of three phases: it has not passed
  \<^verbatim>\<open>async with self._rate_limiter\<close> yet, it is inside (it holds a slot: its POSTs and
  the sleeps between them happen here), or it has left the block. A call on the SDK
  path never comes to the gate and is no part of this model.
\<close>

datatype phase = Waiting | InFlight | Finished

text \<open>
  The process: the class attribute, the adapters constructed so far, the calls with
  the number of the adapter each was made on, and the level from which the loggers
  are enabled.
\<close>

record process =
  rate_limiter :: "nat option"
  instances :: "gemini_provider list"
  tasks :: "(nat \<times> phase) list"
  logging_threshold :: int

text \<open>
  What can happen: an adapter is constructed; \<^verbatim>\<open>generate\<close> is called on adapter \<open>a\<close>;
  call \<open>i\<close> enters the block (\<^verbatim>\<open>acquire\<close>: possible when the counter is positive,
  and the counter goes down by one); call \<open>i\<close> leaves the block, by \<^verbatim>\<open>return\<close> or by an
  exception (\<^verbatim>\<open>__aexit__\<close> calls \<^verbatim>\<open>release\<close>: the counter goes up by one). An event
  that cannot happen in the state leaves it as it is: a call that finds the counter
  at zero keeps waiting. No adapter has an attribute \<^verbatim>\<open>_rate_limiter\<close> of its own, so
  \<^verbatim>\<open>self._rate_limiter\<close> is the attribute of the class whatever the adapter; with the
  attribute still \<^verbatim>\<open>None\<close> the \<^verbatim>\<open>async with\<close> raises and the call ends. (The semaphore
  of \<^verbatim>\<open>asyncio\<close> also makes a call wait behind earlier waiters; the model allows every
  order of entry that the counter allows.)
\<close>

datatype event =
    New gemini_config "string option" bool
  | Call nat
  | Admit nat
  | Finish nat

fun step :: "event \<Rightarrow> process \<Rightarrow> process" where
  "step (New config getenv sdk_client) p =
     (case GeminiProvider_init config getenv sdk_client (logging_threshold p) (rate_limiter p) of
        (Inl e, limiter) \<Rightarrow> p\<lparr>rate_limiter := limiter\<rparr>
      | (Inr self, limiter) \<Rightarrow> p\<lparr>rate_limiter := limiter, instances := instances p @ [self]\<rparr>)"
| "step (Call a) p =
     (if a < length (instances p) then p\<lparr>tasks := tasks p @ [(a, Waiting)]\<rparr> else p)"
| "step (Admit i) p =
     (if i < length (tasks p) \<and> snd (tasks p ! i) = Waiting then
        (case rate_limiter p of
           None \<Rightarrow> p\<lparr>tasks := (tasks p)[i := (fst (tasks p ! i), Finished)]\<rparr>
         | Some v \<Rightarrow>
             if 0 < v
             then p\<lparr>rate_limiter := Some (v - 1),
                    tasks := (tasks p)[i := (fst (tasks p ! i), InFlight)]\<rparr>
             else p)
      else p)"
| "step (Finish i) p =
     (if i < length (tasks p) \<and> snd (tasks p ! i) = InFlight then
        p\<lparr>rate_limiter := map_option Suc (rate_limiter p),
          tasks := (tasks p)[i := (fst (tasks p ! i), Finished)]\<rparr>
      else p)"

fun run :: "event list \<Rightarrow> process \<Rightarrow> process" where
  "run [] p = p"
| "run (e # es) p = run es (step e p)"

text \<open>The process at its start: the class attribute is \<^verbatim>\<open>None\<close>.\<close>

definition start :: "int \<Rightarrow> process" where
  "start threshold =
     \<lparr>rate_limiter = None, instances = [], tasks = [], logging_threshold = threshold\<rparr>"

text \<open>The calls that hold a slot, all of them and those made on adapter \<open>a\<close>.\<close>

definition in_flight :: "process \<Rightarrow> nat" where
  "in_flight p = length (filter (\<lambda>t. snd t = InFlight) (tasks p))"

definition in_flight_on :: "nat \<Rightarrow> process \<Rightarrow> nat" where
  "in_flight_on a p = length (filter (\<lambda>t. t = (a, InFlight)) (tasks p))"

subsection \<open>The bound\<close>

lemma GeminiProvider_init_keeps_limiter:
  "snd (GeminiProvider_init config getenv sdk_client threshold (Some v)) = Some v"
  by (simp add: GeminiProvider_init_def split: option.splits)

lemma GeminiProvider_init_first:
  "0 \<le> max_concurrent config \<Longrightarrow>
   snd (GeminiProvider_init config getenv sdk_client threshold None)
     = Some (nat (max_concurrent config))"
  by (simp add: GeminiProvider_init_def Semaphore_def split: option.splits)

lemma count_update:
  "i < length ts \<Longrightarrow>
   length (filter P (ts[i := x])) + (if P (ts ! i) then 1 else 0) =
   length (filter P ts) + (if P x then 1 else 0)"
proof (induction ts arbitrary: i)
  case Nil
  then show ?case by simp
next
  case (Cons t ts)
  show ?case
  proof (cases i)
    case 0
    then show ?thesis by simp
  next
    case (Suc j)
    with Cons.prems have "j < length ts" by simp
    from Cons.IH [OF this] show ?thesis using Suc by simp
  qed
qed

lemma in_flight_step:
  assumes "rate_limiter p = Some v"
  shows "\<exists>v'. rate_limiter (step e p) = Some v' \<and> in_flight (step e p) + v' = in_flight p + v"
proof (cases e)
  case (New config getenv sdk_client)
  have "snd (GeminiProvider_init config getenv sdk_client (logging_threshold p) (rate_limiter p))
          = Some v"
    unfolding assms by (rule GeminiProvider_init_keeps_limiter)
  then show ?thesis
    using assms New by (auto simp add: in_flight_def split: prod.splits sum.splits)
next
  case (Call a)
  then show ?thesis using assms by (simp add: in_flight_def)
next
  case (Admit i)
  show ?thesis
  proof (cases "i < length (tasks p) \<and> snd (tasks p ! i) = Waiting \<and> 0 < v")
    case True
    from count_update [of i "tasks p" "\<lambda>t. snd t = InFlight" "(fst (tasks p ! i), InFlight)"] True
    have "length (filter (\<lambda>t. snd t = InFlight) ((tasks p)[i := (fst (tasks p ! i), InFlight)])) =
          Suc (length (filter (\<lambda>t. snd t = InFlight) (tasks p)))"
      by simp
    then show ?thesis using assms Admit True by (simp add: in_flight_def)
  next
    case False
    then show ?thesis using assms Admit by (auto simp add: in_flight_def)
  qed
next
  case (Finish i)
  show ?thesis
  proof (cases "i < length (tasks p) \<and> snd (tasks p ! i) = InFlight")
    case True
    from count_update [of i "tasks p" "\<lambda>t. snd t = InFlight" "(fst (tasks p ! i), Finished)"] True
    have "Suc (length (filter (\<lambda>t. snd t = InFlight) ((tasks p)[i := (fst (tasks p ! i), Finished)]))) =
          length (filter (\<lambda>t. snd t = InFlight) (tasks p))"
      by simp
    then show ?thesis using assms Finish True by (simp add: in_flight_def)
  next
    case False
    then show ?thesis using assms Finish by (auto simp add: in_flight_def)
  qed
qed

lemma in_flight_run:
  "rate_limiter p = Some v \<Longrightarrow>
   \<exists>v'. rate_limiter (run es p) = Some v' \<and> in_flight (run es p) + v' = in_flight p + v"
proof (induction es arbitrary: p v)
  case Nil
  then show ?case by simp
next
  case (Cons e es)
  from in_flight_step [OF Cons.prems, of e] obtain v1 where
    v1: "rate_limiter (step e p) = Some v1" "in_flight (step e p) + v1 = in_flight p + v"
    by blast
  from Cons.IH [OF v1(1)] v1(2) show ?case by simp
qed

lemma in_flight_on_le: "in_flight_on a p \<le> in_flight p"
proof -
  have "filter (\<lambda>t. t = (a, InFlight)) (tasks p) =
        filter (\<lambda>t. fst t = a) (filter (\<lambda>t. snd t = InFlight) (tasks p))"
    by (auto intro: filter_cong simp add: prod_eq_iff)
  then show ?thesis
    unfolding in_flight_on_def in_flight_def by (simp del: filter_filter)
qed

text \<open>
  Claim C9, as the code has it. Let the first Gemini adapter of the process be
  constructed from a configuration whose \<^verbatim>\<open>max_concurrent_requests\<close> (8 when the key
  is absent) is not negative. Then, whatever happens next (further adapters
  constructed from any configuration, calls on any of the adapters, calls entering
  and leaving the gate in any order), the class attribute is a semaphore, the calls
  that hold a slot and the free slots add up to that first
  \<^verbatim>\<open>max_concurrent_requests\<close>, and so at no instant do more calls than that hold a
  slot, on one adapter or on all of them together. The gate is one for the class,
  sized by the first constructor call; no slot is lost on the way out of a call.
\<close>

theorem rate_limiter_bounds_all_instances:
  assumes "0 \<le> max_concurrent config"
  shows "(\<exists>v. rate_limiter (run (New config getenv sdk_client # es) (start threshold)) = Some v
              \<and> in_flight (run (New config getenv sdk_client # es) (start threshold)) + v
                  = nat (max_concurrent config))
         \<and> in_flight (run (New config getenv sdk_client # es) (start threshold))
             \<le> nat (max_concurrent config)
         \<and> in_flight_on a (run (New config getenv sdk_client # es) (start threshold))
             \<le> nat (max_concurrent config)"
proof -
  let ?p = "step (New config getenv sdk_client) (start threshold)"
  have lim: "rate_limiter ?p = Some (nat (max_concurrent config))"
    using GeminiProvider_init_first [OF assms, of getenv sdk_client threshold]
    by (auto simp add: start_def split: prod.splits sum.splits)
  have none: "in_flight ?p = 0"
    by (auto simp add: start_def in_flight_def split: prod.splits sum.splits)
  from in_flight_run [OF lim, of es] none obtain v where
    v: "rate_limiter (run es ?p) = Some v" "in_flight (run es ?p) + v = nat (max_concurrent config)"
    by auto
  then have "in_flight (run es ?p) \<le> nat (max_concurrent config)" by linarith
  moreover have "in_flight_on a (run es ?p) \<le> in_flight (run es ?p)" by (rule in_flight_on_le)
  ultimately show ?thesis using v by simp
qed

text \<open>
  Two configurations with an API key, the first without \<^verbatim>\<open>max_concurrent_requests\<close>
  and the second with \<^verbatim>\<open>max_concurrent_requests\<close> 2.
\<close>

definition config_a :: gemini_config where
  "config_a =
     \<lparr>max_concurrent_requests = None, api_key = Some ''key-a'', cfg_default_model = None,
      cfg_thinking_mode = None, cfg_timeout = None, cfg_max_retries = None\<rparr>"

definition config_b :: gemini_config where
  "config_b = config_a\<lparr>max_concurrent_requests := Some 2, api_key := Some ''key-b''\<rparr>"

theorem rate_limiter_bounds_all_instances_witness:
  "(\<exists>v. rate_limiter (run (New config_b None False # [Call 0, Call 0, Call 0, Admit 0, Admit 1, Admit 2])
                        (start 30)) = Some v
       \<and> in_flight (run (New config_b None False # [Call 0, Call 0, Call 0, Admit 0, Admit 1, Admit 2])
                      (start 30)) + v = nat (max_concurrent config_b))
   \<and> in_flight (run (New config_b None False # [Call 0, Call 0, Call 0, Admit 0, Admit 1, Admit 2])
                  (start 30)) \<le> nat (max_concurrent config_b)
   \<and> in_flight_on 0 (run (New config_b None False # [Call 0, Call 0, Call 0, Admit 0, Admit 1, Admit 2])
                       (start 30)) \<le> nat (max_concurrent config_b)"
proof -
  have "0 \<le> max_concurrent config_b"
    by (simp add: max_concurrent_def config_b_def config_a_def)
  from rate_limiter_bounds_all_instances [OF this,
      of None False "[Call 0, Call 0, Call 0, Admit 0, Admit 1, Admit 2]" 30 0]
  show ?thesis .
qed

text \<open>
  Claim C9 as stated fails. Adapter 0 is constructed from the first configuration and
  adapter 1 from the second, whose \<^verbatim>\<open>max_concurrent_requests\<close> is 2. Three calls are
  made on adapter 1 and all three hold a slot at the same time: the gate is the one
  that the first constructor made, with 8 slots, of which 5 are left.
\<close>

theorem three_in_flight_on_adapter_of_two:
  "max_concurrent config_b = 2
   \<and> in_flight_on 1 (run [New config_a None False, New config_b None False,
                           Call 1, Call 1, Call 1, Admit 0, Admit 1, Admit 2] (start 30)) = 3
   \<and> rate_limiter (run [New config_a None False, New config_b None False,
                          Call 1, Call 1, Call 1, Admit 0, Admit 1, Admit 2] (start 30)) = Some 5"
  by code_simp

text \<open>On an adapter that was constructed first, the third call waits.\<close>

lemma third_call_waits:
  "tasks (run [New config_b None False, Call 0, Call 0, Call 0, Admit 0, Admit 1, Admit 2] (start 30)) =
     [(0, InFlight), (0, InFlight), (0, Waiting)]"
  by code_simp

end
